theory Spec2Isabelle
  imports Complex_Main "HOL-Library.AList" "HOL-Library.Sublist"
begin

section \<open>Program tree (types.ts)\<close>

text \<open>
  The node types of \<^verbatim>\<open>types.ts\<close>, one constructor per interface, fields in the order of
  the declaration. Statement nodes and \<open>CallExpression\<close> end with their \<open>line\<close> and
  \<open>column\<close>; the other expression interfaces declare no position fields. Numbers are the
  finite IEEE-754 doubles, modelled as reals (NaN and the infinities are left out).
\<close>

datatype TokenType =
    NUMBER | STRING | IDENTIFIER
  | LET | CONST | FUNC | RETURN | IF | THEN | ELSE | END | WHILE | DO | FOR | IN
  | BREAK | CONTINUE | IMPORT | EXPORT | TRUE | FALSE | NIL | AND | OR | NOT | TRY | CATCH
  | PLUS | MINUS | STAR | SLASH | PERCENT | CARET | EQUALS | DOUBLE_EQUALS | NOT_EQUALS
  | LESS_THAN | GREATER_THAN | LESS_EQUALS | GREATER_EQUALS
  | LPAREN | RPAREN | LBRACKET | RBRACKET | COMMA | COLON
  | NEWLINE | EOF


datatype expression =
    BinaryExpression string expression expression
  | UnaryExpression string expression
  | CallExpression string "expression list" nat nat
  | IndexExpression expression expression
  | ArrayLiteral "expression list"
  | NumberLiteral real bool
  | StringLiteral string
  | BooleanLiteral bool
  | NilLiteral
  | Identifier string

datatype statement =
    LetDeclaration string "string option" "expression option" nat nat
  | ConstDeclaration string "string option" expression nat nat
  | Assignment string expression nat nat
  | IndexAssignment string expression expression nat nat
  | IfStatement expression "statement list" "(expression \<times> statement list) list"
      "statement list option" nat nat
  | WhileStatement expression "statement list" nat nat
  | ForStatement string expression "statement list" nat nat
  | FunctionDeclaration string "(string \<times> string option) list" "string option"
      "statement list" nat nat
  | ReturnStatement "expression option" nat nat
  | BreakStatement nat nat
  | ContinueStatement nat nat
  | ImportStatement string nat nat
  | TryCatchStatement "statement list" string "statement list" nat nat
  | ExpressionStatement expression nat nat

section \<open>Runtime values and environments (interpreter.ts)\<close>

text \<open>
  An \<open>Environment\<close> object has a private map \<open>vars\<close> and a parent fixed by the constructor.
  Its identity is the address of its frame; since the parent never changes, a reference to
  an environment is modelled as the address of its own frame together with the addresses
  of its ancestors' frames, nearest first. The frames live in the store, so closures that captured the same environment
  see each other's writes. A frame is an association list in insertion order, as a JS
  \<open>Map\<close> is: \<open>AList.update\<close> replaces the value of an existing key in place and appends a
  new key at the end.

  Arrays are references into an array store. A user function is an object with its own
  identity (\<open>===\<close> on functions is by reference), its declaration and its closure.
  \<open>Undefined\<close> is the JS \<open>undefined\<close>: not a \<open>LuxValue\<close> by type, but read from an array
  hole or from a missing built-in argument at run time. \<open>Hole\<close> marks an empty slot of a
  sparse array and occurs only inside the array store.
\<close>


type_synonym env = "nat \<times> nat list"

datatype LuxValue =
    Nil
  | Bool bool
  | Num real
  | Str string
  | Arr nat
  | LuxFunction (fn_id: nat) (decl_name: string) (decl_params: "(string \<times> string option) list")
      (decl_body: "statement list") (closure: env)
  | Builtin string
  | Undefined
  | Hole

type_synonym entry = "LuxValue \<times> bool"
type_synonym frame = "(string \<times> entry) list"
type_synonym frames = "nat \<Rightarrow> frame"

datatype signal = ReturnSignal "LuxValue" | BreakSignal | ContinueSignal

definition chain :: "env \<Rightarrow> nat list" where
  "chain e = fst e # snd e"

text \<open>\<open>define\<close>: \<open>this.vars.set(name, {value, constant})\<close>, always in the environment's own frame.\<close>

definition env_define :: "env \<Rightarrow> string \<Rightarrow> LuxValue \<Rightarrow> bool \<Rightarrow> frames \<Rightarrow> frames" where
  "env_define e name v c fs = fs(fst e := AList.update name (v, c) (fs (fst e)))"

definition quoted :: "string \<Rightarrow> string" where
  "quoted name = [CHR 0x27] @ name @ [CHR 0x27]"

text \<open>\<open>get\<close>: walks the parent links; \<open>None\<close> is the thrown \<open>Undefined variable\<close> error.\<close>

fun chain_get :: "frames \<Rightarrow> nat list \<Rightarrow> string \<Rightarrow> LuxValue option" where
  "chain_get fs [] name = None"
| "chain_get fs (a # parent) name =
     (case map_of (fs a) name of
        Some en \<Rightarrow> Some (fst en)
      | None \<Rightarrow> chain_get fs parent name)"

definition env_get :: "frames \<Rightarrow> env \<Rightarrow> string \<Rightarrow> LuxValue option" where
  "env_get fs e name = chain_get fs (chain e) name"

text \<open>\<open>set\<close>: the first frame of the chain that binds the name decides; the message of the
  thrown \<open>Error\<close> is the left result.\<close>

fun chain_set :: "frames \<Rightarrow> nat list \<Rightarrow> string \<Rightarrow> LuxValue \<Rightarrow> string + frames" where
  "chain_set fs [] name v = Inl (''Undefined variable: '' @ quoted name)"
| "chain_set fs (a # parent) name v =
     (case map_of (fs a) name of
        Some en \<Rightarrow>
          (if snd en then Inl (''Cannot reassign constant: '' @ quoted name)
           else Inr (fs(a := AList.update name (v, False) (fs a))))
      | None \<Rightarrow> chain_set fs parent name v)"

definition env_set :: "frames \<Rightarrow> env \<Rightarrow> string \<Rightarrow> LuxValue \<Rightarrow> string + frames" where
  "env_set fs e name v = chain_set fs (chain e) name v"

fun chain_has :: "frames \<Rightarrow> nat list \<Rightarrow> string \<Rightarrow> bool" where
  "chain_has fs [] name = False"
| "chain_has fs (a # parent) name =
     (if map_of (fs a) name \<noteq> None then True else chain_has fs parent name)"

definition env_has :: "frames \<Rightarrow> env \<Rightarrow> string \<Rightarrow> bool" where
  "env_has fs e name = chain_has fs (chain e) name"

definition getOwnNames :: "frames \<Rightarrow> env \<Rightarrow> string list" where
  "getOwnNames fs e = map fst (fs (fst e))"

definition getOwnEntry :: "frames \<Rightarrow> env \<Rightarrow> string \<Rightarrow> entry option" where
  "getOwnEntry fs e name = map_of (fs (fst e)) name"

section \<open>Errors (errors.ts)\<close>

datatype StackFrame =
  StackFrame (frame_name: string) (frame_file: string) (frame_line: nat) (frame_column: nat)

text \<open>The thrown objects: a plain JS \<open>Error\<close> with its message, and the three subclasses of
  \<open>LuxbinError\<close> with message, file, line and column (\<open>RuntimeError\<close> also with the call
  stack it was given).\<close>

datatype exn =
    Error string
  | LexerError string string nat nat
  | ParseError string string nat nat
  | RuntimeError string string nat nat "StackFrame list"

fun exn_message :: "exn \<Rightarrow> string" where
  "exn_message (Error m) = m"
| "exn_message (LexerError m f l c) = m"
| "exn_message (ParseError m f l c) = m"
| "exn_message (RuntimeError m f l c cs) = m"

definition digit_char :: "nat \<Rightarrow> char" where
  "digit_char d = ''0123456789'' ! d"

text \<open>Decimal rendering of a non-negative integer, as a JS template does for a line, a column
  or an array length.\<close>

fun string_of_nat :: "nat \<Rightarrow> string" where
  "string_of_nat n =
     (if n < 10 then [digit_char n] else string_of_nat (n div 10) @ [digit_char (n mod 10)])"

declare string_of_nat.simps [simp del]

definition location :: "string \<Rightarrow> nat \<Rightarrow> nat \<Rightarrow> string" where
  "location f l c = f @ '':'' @ string_of_nat l @ '':'' @ string_of_nat c"

definition format_frame :: "StackFrame \<Rightarrow> string" where
  "format_frame fr =
     [CHR 0x0A] @ ''  at '' @ frame_name fr @ '' ('' @
       location (frame_file fr) (frame_line fr) (frame_column fr) @ '')''"

text \<open>\<open>format\<close>: \<open>LuxbinError.format\<close> for the lexer and parser errors, the override
  \<open>RuntimeError.format\<close> for runtime errors. A plain \<open>Error\<close> has no \<open>format\<close>; the callers
  use its message.\<close>

fun format :: "exn \<Rightarrow> string" where
  "format (Error m) = m"
| "format (LexerError m f l c) =
     ''LexerError: '' @ m @ (if l > 0 then '' at '' @ location f l c else [])"
| "format (ParseError m f l c) =
     ''ParseError: '' @ m @ (if l > 0 then '' at '' @ location f l c else [])"
| "format (RuntimeError m f l c cs) =
     ''RuntimeError: '' @ m @
       (if l > 0 then [CHR 0x0A] @ ''  at '' @ location f l c else []) @
       concat (map format_frame cs)"

section \<open>The host and the store\<close>

text \<open>
  What the built-ins can reach: the arrays (mutated in place by \<open>push\<close> and \<open>pop\<close>), the
  shared output buffer and the file system.
\<close>

record world =
  arrays :: "nat \<Rightarrow> LuxValue list"
  next_array :: nat
  output_buf :: "string list"
  files :: "string \<rightharpoonup> string"

text \<open>
  The collaborators of the core that are taken as given: the built-in registry
  (\<open>createStdlib\<close>: the names, and for each name a callable that returns a value or throws an
  \<open>Error\<close> with a message), the IEEE-754 arithmetic of the JS engine on two numbers, its
  \<open>String(number)\<close>, the lexer and parser (\<open>lexer.ts\<close> and \<open>parser.ts\<close>: a program or a
  \<open>LexerError\<close> (\<open>True\<close>) or \<open>ParseError\<close> (\<open>False\<close>) with message, file, line and column) and
  \<open>path.resolve(path.dirname(fromFile), importPath)\<close>.
\<close>

record host =
  builtin_names :: "string list"
  builtin_fn :: "string \<Rightarrow> LuxValue list \<Rightarrow> world \<Rightarrow> (string + LuxValue) \<times> world"
  number_op :: "string \<Rightarrow> real \<Rightarrow> real \<Rightarrow> real"
  number_to_string :: "real \<Rightarrow> string"
  parse_source :: "string \<Rightarrow> string \<Rightarrow> (bool \<times> string \<times> string \<times> nat \<times> nat) + statement list"
  path_resolve :: "string \<Rightarrow> string \<Rightarrow> string"

fun syntax_exn :: "bool \<times> string \<times> string \<times> nat \<times> nat \<Rightarrow> exn" where
  "syntax_exn (lexer, m, f, l, c) = (if lexer then LexerError m f l c else ParseError m f l c)"

text \<open>
  The state of a loader and of the evaluation in progress: the store (frames, arrays, output),
  the step counter and call-frame stack of the running \<open>interpret\<close> call, and the loader's
  cache, loading set and global environment.
\<close>

record state =
  world :: world
  frames :: frames
  next_frame :: nat
  next_fn :: nat
  steps :: nat
  callStack :: "StackFrame list"
  cache :: "string \<rightharpoonup> env"
  loading :: "string set"
  globalEnv :: env

text \<open>An evaluation returns a value and the new state, throws, or is cut off by the fuel of
  the model (which stands for nothing in the program).\<close>

datatype 'a res = Ok 'a state | Throw exn state | OutOfFuel

definition bind :: "'a res \<Rightarrow> ('a \<Rightarrow> state \<Rightarrow> 'b res) \<Rightarrow> 'b res" where
  "bind r k = (case r of Ok a s \<Rightarrow> k a s | Throw e s \<Rightarrow> Throw e s | OutOfFuel \<Rightarrow> OutOfFuel)"

text \<open>\<open>new Environment(parent)\<close>: a fresh empty frame.\<close>

definition newEnvironment :: "env option \<Rightarrow> state \<Rightarrow> env \<times> state" where
  "newEnvironment parent s =
     ((next_frame s, (case parent of None \<Rightarrow> [] | Some p \<Rightarrow> chain p)),
      s\<lparr>frames := (frames s)(next_frame s := []), next_frame := Suc (next_frame s)\<rparr>)"

definition alloc_array :: "LuxValue list \<Rightarrow> world \<Rightarrow> nat \<times> world" where
  "alloc_array vs w =
     (next_array w, w\<lparr>arrays := (arrays w)(next_array w := vs), next_array := Suc (next_array w)\<rparr>)"

text \<open>Reading a slot gives \<open>undefined\<close> for a hole; writing past the end extends the array
  and leaves holes, as a JS array does.\<close>

definition read_elem :: "LuxValue \<Rightarrow> LuxValue" where
  "read_elem v = (case v of Hole \<Rightarrow> Undefined | _ \<Rightarrow> v)"

definition write_at :: "LuxValue list \<Rightarrow> nat \<Rightarrow> LuxValue \<Rightarrow> LuxValue list" where
  "write_at xs i v =
     (if i < length xs then xs[i := v] else xs @ replicate (i - length xs) Hole @ [v])"

definition array_write :: "nat \<Rightarrow> nat \<Rightarrow> LuxValue \<Rightarrow> world \<Rightarrow> world" where
  "array_write a i v w = w\<lparr>arrays := (arrays w)(a := write_at (arrays w a) i v)\<rparr>"

section \<open>Utility functions (interpreter.ts)\<close>

fun isTruthy :: "LuxValue \<Rightarrow> bool" where
  "isTruthy Nil = False"
| "isTruthy (Bool b) = b"
| "isTruthy (Num x) = (x \<noteq> 0)"
| "isTruthy (Str str) = (str \<noteq> [])"
| "isTruthy v = True"

fun join :: "string \<Rightarrow> string list \<Rightarrow> string" where
  "join sep [] = []"
| "join sep [x] = x"
| "join sep (x # y # ys) = x @ sep @ join sep (y # ys)"

text \<open>\<open>stringify\<close> follows array references, so it takes the array store; an array that
  contains itself overflows the JS stack, which the model renders as running out of fuel.
  \<open>map\<close> skips a hole and \<open>join\<close> prints it as the empty string.\<close>

fun stringify :: "nat \<Rightarrow> host \<Rightarrow> (nat \<Rightarrow> LuxValue list) \<Rightarrow> LuxValue \<Rightarrow> string option" where
  "stringify 0 h arrs v = None"
| "stringify (Suc n) h arrs v =
     (case v of
        Nil \<Rightarrow> Some ''nil''
      | Bool b \<Rightarrow> Some (if b then ''true'' else ''false'')
      | Num x \<Rightarrow> Some (number_to_string h x)
      | Str str \<Rightarrow> Some str
      | Arr a \<Rightarrow>
          (case those (map (stringify n h arrs) (arrs a)) of
             None \<Rightarrow> None
           | Some strs \<Rightarrow> Some (''['' @ join '', '' strs @ '']''))
      | LuxFunction i name ps body clo \<Rightarrow> Some (''<function '' @ name @ ''>'')
      | Builtin name \<Rightarrow> Some (''<builtin '' @ name @ ''>'')
      | Undefined \<Rightarrow> Some ''undefined''
      | Hole \<Rightarrow> Some [])"

fun typeOf :: "LuxValue \<Rightarrow> string" where
  "typeOf Nil = ''nil''"
| "typeOf (Arr a) = ''array''"
| "typeOf (LuxFunction i name ps body clo) = ''function''"
| "typeOf (Builtin name) = ''builtin''"
| "typeOf (Bool b) = ''boolean''"
| "typeOf (Num x) = ''number''"
| "typeOf (Str str) = ''string''"
| "typeOf v = ''undefined''"

text \<open>JS \<open>===\<close>: primitives by value, arrays and functions by reference.\<close>

fun strict_equal :: "LuxValue \<Rightarrow> LuxValue \<Rightarrow> bool" where
  "strict_equal Nil Nil = True"
| "strict_equal (Bool a) (Bool b) = (a = b)"
| "strict_equal (Num x) (Num y) = (x = y)"
| "strict_equal (Str a) (Str b) = (a = b)"
| "strict_equal (Arr a) (Arr b) = (a = b)"
| "strict_equal (LuxFunction i n1 p1 b1 c1) (LuxFunction j n2 p2 b2 c2) = (i = j)"
| "strict_equal (Builtin a) (Builtin b) = (a = b)"
| "strict_equal Undefined Undefined = True"
| "strict_equal v w = False"

text \<open>JS \<open><\<close> on two strings: lexicographic on the code units (bytes here).\<close>

fun str_less :: "string \<Rightarrow> string \<Rightarrow> bool" where
  "str_less [] [] = False"
| "str_less [] (y # ys) = True"
| "str_less (x # xs) [] = False"
| "str_less (x # xs) (y # ys) =
     (if (of_char x :: nat) < of_char y then True
      else if (of_char y :: nat) < of_char x then False
      else str_less xs ys)"

definition is_string :: "LuxValue \<Rightarrow> bool" where
  "is_string v = (case v of Str str \<Rightarrow> True | _ \<Rightarrow> False)"

text \<open>The tail of \<open>evaluateBinaryOp\<close>, reached when the operands are not both numbers or the
  switch on two numbers has no case for the operator.\<close>

definition binaryOpRest ::
  "string \<Rightarrow> StackFrame list \<Rightarrow> string \<Rightarrow> LuxValue \<Rightarrow> LuxValue \<Rightarrow> exn + LuxValue" where
  "binaryOpRest file cs op left right =
     (if op = ''=='' then Inr (Bool (strict_equal left right))
      else if op = ''!='' then Inr (Bool (\<not> strict_equal left right))
      else
        (case (left, right) of
           (Str a, Str b) \<Rightarrow>
             (if op = ''<'' then Inr (Bool (str_less a b))
              else if op = ''>'' then Inr (Bool (str_less b a))
              else if op = ''<='' then Inr (Bool (\<not> str_less b a))
              else if op = ''>='' then Inr (Bool (\<not> str_less a b))
              else Inl (RuntimeError
                (''Cannot apply operator '' @ quoted op @ '' to '' @ typeOf left @ '' and '' @
                   typeOf right) file 0 0 cs))
         | _ \<Rightarrow> Inl (RuntimeError
                (''Cannot apply operator '' @ quoted op @ '' to '' @ typeOf left @ '' and '' @
                   typeOf right) file 0 0 cs)))"

text \<open>\<open>evaluateBinaryOp\<close>; \<open>None\<close> only when \<open>stringify\<close> ran out of fuel.\<close>

definition evaluateBinaryOp ::
  "nat \<Rightarrow> host \<Rightarrow> string \<Rightarrow> StackFrame list \<Rightarrow> (nat \<Rightarrow> LuxValue list) \<Rightarrow> string \<Rightarrow> LuxValue \<Rightarrow> LuxValue
     \<Rightarrow> (exn + LuxValue) option" where
  "evaluateBinaryOp n h file cs arrs op left right =
     (if op = ''+'' \<and> (is_string left \<or> is_string right) then
        (case (stringify n h arrs left, stringify n h arrs right) of
           (Some a, Some b) \<Rightarrow> Some (Inr (Str (a @ b)))
         | _ \<Rightarrow> None)
      else
        (case (left, right) of
           (Num x, Num y) \<Rightarrow>
             (if op = ''+'' \<or> op = ''-'' \<or> op = ''*'' then Some (Inr (Num (number_op h op x y)))
              else if op = ''/'' \<or> op = ''%'' then
                (if y = 0 then Some (Inl (RuntimeError ''Division by zero'' file 0 0 cs))
                 else Some (Inr (Num (number_op h op x y))))
              else if op = ''^'' then Some (Inr (Num (number_op h op x y)))
              else if op = ''<'' then Some (Inr (Bool (x < y)))
              else if op = ''>'' then Some (Inr (Bool (x > y)))
              else if op = ''<='' then Some (Inr (Bool (x \<le> y)))
              else if op = ''>='' then Some (Inr (Bool (x \<ge> y)))
              else if op = ''=='' then Some (Inr (Bool (x = y)))
              else if op = ''!='' then Some (Inr (Bool (x \<noteq> y)))
              else Some (binaryOpRest file cs op left right))
         | _ \<Rightarrow> Some (binaryOpRest file cs op left right)))"

section \<open>The interpreter (interpreter.ts)\<close>

definition STEP_LIMIT :: nat where
  "STEP_LIMIT = 10000000"

definition limit_message :: string where
  "limit_message = ''Execution limit exceeded (10,000,000 steps). Possible infinite loop.''"

text \<open>\<open>step\<close>: the counter is incremented first and stays incremented when the error is
  thrown.\<close>

definition step :: "string \<Rightarrow> state \<Rightarrow> unit res" where
  "step file s =
     (let s' = s\<lparr>steps := steps s + 1\<rparr>
      in if steps s' > STEP_LIMIT
         then Throw (RuntimeError limit_message file 0 0 (callStack s')) s'
         else Ok () s')"

text \<open>Binding the parameters of a call: positionally, \<open>nil\<close> for a missing argument.\<close>

fun bind_params :: "env \<Rightarrow> (string \<times> string option) list \<Rightarrow> LuxValue list \<Rightarrow> frames \<Rightarrow> frames" where
  "bind_params e [] args fs = fs"
| "bind_params e (p # ps) args fs =
     bind_params e ps (tl args)
       (env_define e (fst p) (case args of [] \<Rightarrow> Nil | a # rest \<Rightarrow> a) False fs)"

definition is_callable :: "LuxValue \<Rightarrow> bool" where
  "is_callable v = (case v of LuxFunction i name ps body clo \<Rightarrow> True | Builtin name \<Rightarrow> True | _ \<Rightarrow> False)"

text \<open>\<open>ModuleLoader.mergeExports\<close> (module-loader.ts), one round of its loop and the loop.\<close>

definition mergeOne :: "env \<Rightarrow> env \<Rightarrow> string \<Rightarrow> frames \<Rightarrow> frames" where
  "mergeOne genv moduleEnv name fs =
     (case getOwnEntry fs moduleEnv name of
        None \<Rightarrow> fs
      | Some en \<Rightarrow>
          (if is_callable (fst en) then
             (if \<not> env_has fs genv name then env_define genv name (fst en) (snd en) fs else fs)
           else if snd en then
             (if \<not> env_has fs genv name then env_define genv name (fst en) True fs else fs)
           else fs))"

definition mergeExports :: "env \<Rightarrow> state \<Rightarrow> state" where
  "mergeExports moduleEnv s =
     s\<lparr>frames := fold (mergeOne (globalEnv s) moduleEnv) (getOwnNames (frames s) moduleEnv) (frames s)\<rparr>"

definition ends_with :: "string \<Rightarrow> string \<Rightarrow> bool" where
  "ends_with str suf = (length suf \<le> length str \<and> drop (length str - length suf) str = suf)"

definition resolve_import :: "host \<Rightarrow> string \<Rightarrow> string \<Rightarrow> string" where
  "resolve_import h importPath fromFile =
     (let resolved = path_resolve h fromFile importPath
      in if ends_with resolved ''.lux'' then resolved else resolved @ ''.lux'')"

text \<open>The \<open>finally\<close> block of \<open>importModule\<close>.\<close>

definition finally_delete :: "string \<Rightarrow> 'a res \<Rightarrow> 'a res" where
  "finally_delete p r =
     (case r of
        Ok a s \<Rightarrow> Ok a (s\<lparr>loading := loading s - {p}\<rparr>)
      | Throw e s \<Rightarrow> Throw e (s\<lparr>loading := loading s - {p}\<rparr>)
      | OutOfFuel \<Rightarrow> OutOfFuel)"

datatype interp_result = Result (res_steps: nat) (res_error: "string option") (res_env: env)

definition index_message :: "host \<Rightarrow> int \<Rightarrow> nat \<Rightarrow> string" where
  "index_message h i len =
     ''Index '' @ number_to_string h (of_int i) @ '' out of bounds (length '' @
       string_of_nat len @ '')''"

text \<open>
  The start of \<open>interpret\<close>: the given global environment, or a new one with every built-in
  of the registry defined as a constant.
\<close>

definition initial_env :: "host \<Rightarrow> env option \<Rightarrow> state \<Rightarrow> env \<times> state" where
  "initial_env h genv s =
     (case genv of
        Some g \<Rightarrow> (g, s)
      | None \<Rightarrow>
          (case newEnvironment None s of
             (g, s1) \<Rightarrow>
               (g, s1\<lparr>frames := fold (\<lambda>name. env_define g name (Builtin name) True)
                                  (builtin_names h) (frames s1)\<rparr>)))"

text \<open>
  The functions of \<open>interpret\<close> (named \<open>interpretProgram\<close> here), with
  \<open>ModuleLoader.importModule\<close>, which the import callback re-enters. \<open>h\<close> is the host, \<open>file\<close>
  the file label of the running \<open>interpret\<close> call, and \<open>onImport\<close> tells whether the call was
  given the loader's import callback. The loops of \<open>WhileStatement\<close> and \<open>ForStatement\<close>, the
  \<open>alternateConditions\<close> of \<open>IfStatement\<close> and the \<open>map\<close> over argument and element lists
  are functions of their own.

  The functions call each other, and a program may loop, so they are defined by recursion
  on a fuel: each body below is the source function with its calls going to the functions
  of the next lower fuel, held in the record \<open>ev\<close>. With no fuel left the result is
  \<open>OutOfFuel\<close>.
\<close>

record evaluator =
  r_executeBlock ::
    "host \<Rightarrow> string \<Rightarrow> bool \<Rightarrow> statement list \<Rightarrow> env \<Rightarrow> state \<Rightarrow> signal option res"
  r_executeStatement ::
    "host \<Rightarrow> string \<Rightarrow> bool \<Rightarrow> statement \<Rightarrow> env \<Rightarrow> state \<Rightarrow> signal option res"
  r_ifAlternates ::
    "host \<Rightarrow> string \<Rightarrow> bool \<Rightarrow> (expression \<times> statement list) list \<Rightarrow> statement list option \<Rightarrow> env \<Rightarrow> state
       \<Rightarrow> signal option res"
  r_whileLoop ::
    "host \<Rightarrow> string \<Rightarrow> bool \<Rightarrow> expression \<Rightarrow> statement list \<Rightarrow> env \<Rightarrow> state \<Rightarrow> signal option res"
  r_forLoop ::
    "host \<Rightarrow> string \<Rightarrow> bool \<Rightarrow> string \<Rightarrow> nat \<Rightarrow> nat \<Rightarrow> statement list \<Rightarrow> env \<Rightarrow> state
       \<Rightarrow> signal option res"
  r_evaluateExpression ::
    "host \<Rightarrow> string \<Rightarrow> bool \<Rightarrow> expression \<Rightarrow> env \<Rightarrow> state \<Rightarrow> LuxValue res"
  r_evaluateList ::
    "host \<Rightarrow> string \<Rightarrow> bool \<Rightarrow> expression list \<Rightarrow> env \<Rightarrow> state \<Rightarrow> LuxValue list res"
  r_importModule ::
    "host \<Rightarrow> string \<Rightarrow> string \<Rightarrow> state \<Rightarrow> unit res"
  r_interpretProgram ::
    "host \<Rightarrow> string \<Rightarrow> bool \<Rightarrow> statement list \<Rightarrow> env option \<Rightarrow> state \<Rightarrow> interp_result res"

definition executeBlock_body ::
    "evaluator \<Rightarrow> host \<Rightarrow> string \<Rightarrow> bool \<Rightarrow> statement list \<Rightarrow> env \<Rightarrow> state \<Rightarrow> signal option res" where
  "executeBlock_body ev h file onImport stmts env s =
     (case stmts of
        [] \<Rightarrow> Ok None s
      | stmt # rest \<Rightarrow>
          bind (r_executeStatement ev h file onImport stmt env s) (\<lambda>result s1.
            case result of
              Some sig \<Rightarrow> Ok (Some sig) s1
            | None \<Rightarrow> r_executeBlock ev h file onImport rest env s1))"

definition executeStatement_switch ::
    "evaluator \<Rightarrow> host \<Rightarrow> string \<Rightarrow> bool \<Rightarrow> statement \<Rightarrow> env \<Rightarrow> state \<Rightarrow> signal option res" where
  "executeStatement_switch ev h file onImport stmt env s0 =
     (case stmt of
         LetDeclaration name ta init line col \<Rightarrow>
           bind (case init of
                   Some e \<Rightarrow> r_evaluateExpression ev h file onImport e env s0
                 | None \<Rightarrow> Ok Nil s0) (\<lambda>v s1.
             Ok None (s1\<lparr>frames := env_define env name v False (frames s1)\<rparr>))
       | ConstDeclaration name ta e line col \<Rightarrow>
           bind (r_evaluateExpression ev h file onImport e env s0) (\<lambda>v s1.
             Ok None (s1\<lparr>frames := env_define env name v True (frames s1)\<rparr>))
       | Assignment name e line col \<Rightarrow>
           bind (r_evaluateExpression ev h file onImport e env s0) (\<lambda>v s1.
             case env_set (frames s1) env name v of
               Inl msg \<Rightarrow> Throw (RuntimeError msg file line col (callStack s1)) s1
             | Inr fs \<Rightarrow> Ok None (s1\<lparr>frames := fs\<rparr>))
       | IndexAssignment name ie ve line col \<Rightarrow>
           (case env_get (frames s0) env name of
              None \<Rightarrow> Throw (Error (''Undefined variable: '' @ quoted name)) s0
            | Some (Arr a) \<Rightarrow>
                bind (r_evaluateExpression ev h file onImport ie env s0) (\<lambda>index s1.
                  case index of
                    Num x \<Rightarrow>
                      (if \<lfloor>x\<rfloor> < 0 \<or> \<lfloor>x\<rfloor> \<ge> int (length (arrays (world s1) a)) then
                         Throw (RuntimeError
                           (index_message h \<lfloor>x\<rfloor> (length (arrays (world s1) a)))
                           file line col (callStack s1)) s1
                       else
                         bind (r_evaluateExpression ev h file onImport ve env s1) (\<lambda>v s2.
                           Ok None (s2\<lparr>world := array_write a (nat \<lfloor>x\<rfloor>) v (world s2)\<rparr>)))
                  | _ \<Rightarrow> Throw (RuntimeError ''Array index must be a number''
                           file line col (callStack s1)) s1)
            | Some other \<Rightarrow>
                Throw (RuntimeError (quoted name @ '' is not an array'')
                  file line col (callStack s0)) s0)
       | ExpressionStatement e line col \<Rightarrow>
           bind (r_evaluateExpression ev h file onImport e env s0) (\<lambda>v s1. Ok None s1)
       | FunctionDeclaration name params rt body line col \<Rightarrow>
           Ok None (s0\<lparr>frames :=
                         env_define env name (LuxFunction (next_fn s0) name params body env) True
                           (frames s0),
                       next_fn := Suc (next_fn s0)\<rparr>)
       | ReturnStatement val line col \<Rightarrow>
           bind (case val of
                   Some e \<Rightarrow> r_evaluateExpression ev h file onImport e env s0
                 | None \<Rightarrow> Ok Nil s0) (\<lambda>v s1.
             Ok (Some (ReturnSignal v)) s1)
       | BreakStatement line col \<Rightarrow> Ok (Some BreakSignal) s0
       | ContinueStatement line col \<Rightarrow> Ok (Some ContinueSignal) s0
       | IfStatement cond cons alts alt line col \<Rightarrow>
           bind (r_evaluateExpression ev h file onImport cond env s0) (\<lambda>c s1.
             if isTruthy c then
               (case newEnvironment (Some env) s1 of
                  (blockEnv, s2) \<Rightarrow> r_executeBlock ev h file onImport cons blockEnv s2)
             else r_ifAlternates ev h file onImport alts alt env s1)
       | WhileStatement cond body line col \<Rightarrow>
           r_whileLoop ev h file onImport cond body env s0
       | ForStatement var iter body line col \<Rightarrow>
           bind (r_evaluateExpression ev h file onImport iter env s0) (\<lambda>iterable s1.
             case iterable of
               Arr a \<Rightarrow> r_forLoop ev h file onImport var a 0 body env s1
             | _ \<Rightarrow> Throw (RuntimeError ''for..in requires an array''
                      file line col (callStack s1)) s1)
       | ImportStatement path line col \<Rightarrow>
           (if onImport then bind (r_importModule ev h path file s0) (\<lambda>u s1. Ok None s1)
            else Ok None s0)
       | TryCatchStatement tryBody catchVariable catchBody line col \<Rightarrow>
           (case newEnvironment (Some env) s0 of
              (tryEnv, s1) \<Rightarrow>
                (case r_executeBlock ev h file onImport tryBody tryEnv s1 of
                   Ok result s2 \<Rightarrow> Ok result s2
                 | Throw e s2 \<Rightarrow>
                     (case newEnvironment (Some env) s2 of
                        (catchEnv, s3) \<Rightarrow>
                          r_executeBlock ev h file onImport catchBody catchEnv
                            (s3\<lparr>frames := env_define catchEnv catchVariable
                                            (Str (exn_message e)) False (frames s3)\<rparr>))
                 | OutOfFuel \<Rightarrow> OutOfFuel)))"

definition executeStatement_body ::
    "evaluator \<Rightarrow> host \<Rightarrow> string \<Rightarrow> bool \<Rightarrow> statement \<Rightarrow> env \<Rightarrow> state \<Rightarrow> signal option res" where
  "executeStatement_body ev h file onImport stmt env s =
     bind (step file s) (\<lambda>u. executeStatement_switch ev h file onImport stmt env)"

definition ifAlternates_body ::
    "evaluator \<Rightarrow> host \<Rightarrow> string \<Rightarrow> bool \<Rightarrow> (expression \<times> statement list) list \<Rightarrow> statement list option \<Rightarrow> env \<Rightarrow> state
       \<Rightarrow> signal option res" where
  "ifAlternates_body ev h file onImport alts alt env s =
     (case alts of
        [] \<Rightarrow>
          (case alt of
             Some body \<Rightarrow>
               (case newEnvironment (Some env) s of
                  (blockEnv, s1) \<Rightarrow> r_executeBlock ev h file onImport body blockEnv s1)
           | None \<Rightarrow> Ok None s)
      | a # rest \<Rightarrow>
          bind (r_evaluateExpression ev h file onImport (fst a) env s) (\<lambda>c s1.
            if isTruthy c then
              (case newEnvironment (Some env) s1 of
                 (blockEnv, s2) \<Rightarrow> r_executeBlock ev h file onImport (snd a) blockEnv s2)
            else r_ifAlternates ev h file onImport rest alt env s1))"

definition whileLoop_body ::
    "evaluator \<Rightarrow> host \<Rightarrow> string \<Rightarrow> bool \<Rightarrow> expression \<Rightarrow> statement list \<Rightarrow> env \<Rightarrow> state \<Rightarrow> signal option res" where
  "whileLoop_body ev h file onImport cond body env s =
     bind (r_evaluateExpression ev h file onImport cond env s) (\<lambda>c s1.
       if isTruthy c then
         bind (step file s1) (\<lambda>u s2.
           case newEnvironment (Some env) s2 of
             (blockEnv, s3) \<Rightarrow>
               bind (r_executeBlock ev h file onImport body blockEnv s3) (\<lambda>result s4.
                 case result of
                   Some (ReturnSignal v) \<Rightarrow> Ok result s4
                 | Some BreakSignal \<Rightarrow> Ok None s4
                 | _ \<Rightarrow> r_whileLoop ev h file onImport cond body env s4))
       else Ok None s1)"

definition forLoop_body ::
    "evaluator \<Rightarrow> host \<Rightarrow> string \<Rightarrow> bool \<Rightarrow> string \<Rightarrow> nat \<Rightarrow> nat \<Rightarrow> statement list \<Rightarrow> env \<Rightarrow> state
       \<Rightarrow> signal option res" where
  "forLoop_body ev h file onImport var a i body env s =
     (if i < length (arrays (world s) a) then
        bind (step file s) (\<lambda>u s1.
          case newEnvironment (Some env) s1 of
            (blockEnv, s2) \<Rightarrow>
              bind (r_executeBlock ev h file onImport body blockEnv
                      (s2\<lparr>frames := env_define blockEnv var (read_elem (arrays (world s) a ! i))
                                      False (frames s2)\<rparr>))
                (\<lambda>result s3.
                  case result of
                    Some (ReturnSignal v) \<Rightarrow> Ok result s3
                  | Some BreakSignal \<Rightarrow> Ok None s3
                  | _ \<Rightarrow> r_forLoop ev h file onImport var a (Suc i) body env s3))
      else Ok None s)"

definition evaluateExpression_switch ::
    "nat \<Rightarrow> evaluator \<Rightarrow> host \<Rightarrow> string \<Rightarrow> bool \<Rightarrow> expression \<Rightarrow> env \<Rightarrow> state \<Rightarrow> LuxValue res" where
  "evaluateExpression_switch n ev h file onImport expr env s0 =
     (case expr of
         NumberLiteral x isFloat \<Rightarrow> Ok (Num x) s0
       | StringLiteral str \<Rightarrow> Ok (Str str) s0
       | BooleanLiteral b \<Rightarrow> Ok (Bool b) s0
       | NilLiteral \<Rightarrow> Ok Nil s0
       | Identifier name \<Rightarrow>
           (case env_get (frames s0) env name of
              Some v \<Rightarrow> Ok v s0
            | None \<Rightarrow> Throw (RuntimeError (''Undefined variable: '' @ quoted name)
                        file 0 0 (callStack s0)) s0)
       | ArrayLiteral elements \<Rightarrow>
           bind (r_evaluateList ev h file onImport elements env s0) (\<lambda>vs s1.
             case alloc_array vs (world s1) of
               (a, w) \<Rightarrow> Ok (Arr a) (s1\<lparr>world := w\<rparr>))
       | UnaryExpression op e \<Rightarrow>
           bind (r_evaluateExpression ev h file onImport e env s0) (\<lambda>operand s1.
             if op = ''-'' then
               (case operand of
                  Num x \<Rightarrow> Ok (Num (- x)) s1
                | _ \<Rightarrow> Throw (RuntimeError (''Unary '' @ quoted ''-'' @ '' requires a number'')
                         file 0 0 (callStack s1)) s1)
             else if op = ''not'' then Ok (Bool (\<not> isTruthy operand)) s1
             else Throw (RuntimeError (''Unknown unary operator: '' @ op)
                    file 0 0 (callStack s1)) s1)
       | BinaryExpression op l r \<Rightarrow>
           (if op = ''and'' then
              bind (r_evaluateExpression ev h file onImport l env s0) (\<lambda>left s1.
                if \<not> isTruthy left then Ok left s1
                else r_evaluateExpression ev h file onImport r env s1)
            else if op = ''or'' then
              bind (r_evaluateExpression ev h file onImport l env s0) (\<lambda>left s1.
                if isTruthy left then Ok left s1
                else r_evaluateExpression ev h file onImport r env s1)
            else
              bind (r_evaluateExpression ev h file onImport l env s0) (\<lambda>left s1.
                bind (r_evaluateExpression ev h file onImport r env s1) (\<lambda>right s2.
                  case evaluateBinaryOp n h file (callStack s2) (arrays (world s2)) op left right of
                    None \<Rightarrow> OutOfFuel
                  | Some (Inl e) \<Rightarrow> Throw e s2
                  | Some (Inr v) \<Rightarrow> Ok v s2)))
       | CallExpression callee arguments line col \<Rightarrow>
           (case env_get (frames s0) env callee of
              None \<Rightarrow> Throw (RuntimeError (''Undefined function: '' @ quoted callee)
                        file line col (callStack s0)) s0
            | Some f \<Rightarrow>
                bind (r_evaluateList ev h file onImport arguments env s0) (\<lambda>args s1.
                  case f of
                    Builtin name \<Rightarrow>
                      (case builtin_fn h name args (world s1) of
                         (Inl msg, w) \<Rightarrow>
                           Throw (RuntimeError msg file line col (callStack s1)) (s1\<lparr>world := w\<rparr>)
                       | (Inr v, w) \<Rightarrow> Ok v (s1\<lparr>world := w\<rparr>))
                  | LuxFunction i name params body clo \<Rightarrow>
                      (case newEnvironment (Some clo)
                              (s1\<lparr>callStack := callStack s1 @ [StackFrame name file line col]\<rparr>) of
                         (funcEnv, s2) \<Rightarrow>
                           (case r_executeBlock ev h file onImport body funcEnv
                                   (s2\<lparr>frames := bind_params funcEnv params args (frames s2)\<rparr>) of
                              Ok result s3 \<Rightarrow>
                                Ok (case result of Some (ReturnSignal v) \<Rightarrow> v | _ \<Rightarrow> Nil)
                                   (s3\<lparr>callStack := butlast (callStack s3)\<rparr>)
                            | Throw e s3 \<Rightarrow> Throw e s3
                            | OutOfFuel \<Rightarrow> OutOfFuel))
                  | _ \<Rightarrow> Throw (RuntimeError (quoted callee @ '' is not a function'')
                           file line col (callStack s1)) s1))
       | IndexExpression oe ie \<Rightarrow>
           bind (r_evaluateExpression ev h file onImport oe env s0) (\<lambda>obj s1.
             bind (r_evaluateExpression ev h file onImport ie env s1) (\<lambda>index s2.
               case obj of
                 Arr a \<Rightarrow>
                   (case index of
                      Num x \<Rightarrow>
                        (if \<lfloor>x\<rfloor> < 0 \<or> \<lfloor>x\<rfloor> \<ge> int (length (arrays (world s2) a)) then
                           Throw (RuntimeError
                             (index_message h \<lfloor>x\<rfloor> (length (arrays (world s2) a)))
                             file 0 0 (callStack s2)) s2
                         else Ok (read_elem (arrays (world s2) a ! nat \<lfloor>x\<rfloor>)) s2)
                    | _ \<Rightarrow> Throw (RuntimeError ''Array index must be a number''
                             file 0 0 (callStack s2)) s2)
               | Str str \<Rightarrow>
                   (case index of
                      Num x \<Rightarrow>
                        (if \<lfloor>x\<rfloor> < 0 \<or> \<lfloor>x\<rfloor> \<ge> int (length str) then
                           Throw (RuntimeError (index_message h \<lfloor>x\<rfloor> (length str))
                             file 0 0 (callStack s2)) s2
                         else Ok (Str [str ! nat \<lfloor>x\<rfloor>]) s2)
                    | _ \<Rightarrow> Throw (RuntimeError ''String index must be a number''
                             file 0 0 (callStack s2)) s2)
               | _ \<Rightarrow> Throw (RuntimeError ''Index operator requires an array or string''
                        file 0 0 (callStack s2)) s2)))"

definition evaluateExpression_body ::
    "nat \<Rightarrow> evaluator \<Rightarrow> host \<Rightarrow> string \<Rightarrow> bool \<Rightarrow> expression \<Rightarrow> env \<Rightarrow> state \<Rightarrow> LuxValue res" where
  "evaluateExpression_body n ev h file onImport expr env s =
     bind (step file s) (\<lambda>u. evaluateExpression_switch n ev h file onImport expr env)"

definition evaluateList_body ::
    "evaluator \<Rightarrow> host \<Rightarrow> string \<Rightarrow> bool \<Rightarrow> expression list \<Rightarrow> env \<Rightarrow> state \<Rightarrow> LuxValue list res" where
  "evaluateList_body ev h file onImport es env s =
     (case es of
        [] \<Rightarrow> Ok [] s
      | e # rest \<Rightarrow>
          bind (r_evaluateExpression ev h file onImport e env s) (\<lambda>v s1.
            bind (r_evaluateList ev h file onImport rest env s1) (\<lambda>vs s2. Ok (v # vs) s2)))"

definition importModule_body ::
    "evaluator \<Rightarrow> host \<Rightarrow> string \<Rightarrow> string \<Rightarrow> state \<Rightarrow> unit res" where
  "importModule_body ev h importPath fromFile s =
     (if resolve_import h importPath fromFile \<in> loading s then
        Throw (Error (''Circular import detected: '' @ resolve_import h importPath fromFile)) s
      else
        (case cache s (resolve_import h importPath fromFile) of
           Some moduleEnv \<Rightarrow> Ok () (mergeExports moduleEnv s)
         | None \<Rightarrow>
             (case files (world s) (resolve_import h importPath fromFile) of
                None \<Rightarrow>
                  Throw (Error (''Module not found: '' @ resolve_import h importPath fromFile)) s
              | Some source \<Rightarrow>
                  finally_delete (resolve_import h importPath fromFile)
                    (case parse_source h source (resolve_import h importPath fromFile) of
                       Inl err \<Rightarrow>
                         Throw (syntax_exn err)
                           (s\<lparr>loading := insert (resolve_import h importPath fromFile) (loading s)\<rparr>)
                     | Inr program \<Rightarrow>
                         (case newEnvironment (Some (globalEnv s))
                                 (s\<lparr>loading :=
                                      insert (resolve_import h importPath fromFile) (loading s)\<rparr>) of
                            (moduleEnv, s1) \<Rightarrow>
                              bind (r_interpretProgram ev h (resolve_import h importPath fromFile) True
                                      program (Some moduleEnv) s1)
                                (\<lambda>result s2.
                                  case res_error result of
                                    Some err \<Rightarrow>
                                      Throw (Error (''Error in module '' @
                                        resolve_import h importPath fromFile @ '': '' @ err)) s2
                                  | None \<Rightarrow>
                                      Ok () (mergeExports (res_env result)
                                        (s2\<lparr>cache := (cache s2)
                                           (resolve_import h importPath fromFile \<mapsto>
                                              res_env result)\<rparr>))))))))"

definition interpretProgram_body ::
    "evaluator \<Rightarrow> host \<Rightarrow> string \<Rightarrow> bool \<Rightarrow> statement list \<Rightarrow> env option \<Rightarrow> state \<Rightarrow> interp_result res" where
  "interpretProgram_body ev h file onImport program genv s =
     (case initial_env h genv s of
        (globalEnv0, s0) \<Rightarrow>
          (case r_executeBlock ev h file onImport program globalEnv0
                  (s0\<lparr>steps := 0, callStack := []\<rparr>) of
             Ok result s1 \<Rightarrow>
               Ok (Result (steps s1) None globalEnv0)
                  (s1\<lparr>steps := steps s, callStack := callStack s\<rparr>)
           | Throw e s1 \<Rightarrow>
               Ok (Result (steps s1)
                     (Some (case e of RuntimeError m f l c cs \<Rightarrow> format e | _ \<Rightarrow> exn_message e))
                     globalEnv0)
                  (s1\<lparr>steps := steps s, callStack := callStack s\<rparr>)
           | OutOfFuel \<Rightarrow> OutOfFuel))"

primrec evaluator_at :: "nat \<Rightarrow> evaluator" where
  "evaluator_at 0 =
     \<lparr>r_executeBlock = (\<lambda>h file onImport stmts env s. OutOfFuel),
      r_executeStatement = (\<lambda>h file onImport stmt env s. OutOfFuel),
      r_ifAlternates = (\<lambda>h file onImport alts alt env s. OutOfFuel),
      r_whileLoop = (\<lambda>h file onImport cond body env s. OutOfFuel),
      r_forLoop = (\<lambda>h file onImport var a i body env s. OutOfFuel),
      r_evaluateExpression = (\<lambda>h file onImport expr env s. OutOfFuel),
      r_evaluateList = (\<lambda>h file onImport es env s. OutOfFuel),
      r_importModule = (\<lambda>h importPath fromFile s. OutOfFuel),
      r_interpretProgram = (\<lambda>h file onImport program genv s. OutOfFuel)\<rparr>"
| "evaluator_at (Suc n) =
     \<lparr>r_executeBlock = executeBlock_body (evaluator_at n),
      r_executeStatement = executeStatement_body (evaluator_at n),
      r_ifAlternates = ifAlternates_body (evaluator_at n),
      r_whileLoop = whileLoop_body (evaluator_at n),
      r_forLoop = forLoop_body (evaluator_at n),
      r_evaluateExpression = evaluateExpression_body n (evaluator_at n),
      r_evaluateList = evaluateList_body (evaluator_at n),
      r_importModule = importModule_body (evaluator_at n),
      r_interpretProgram = interpretProgram_body (evaluator_at n)\<rparr>"

definition executeBlock ::
    "nat \<Rightarrow> host \<Rightarrow> string \<Rightarrow> bool \<Rightarrow> statement list \<Rightarrow> env \<Rightarrow> state \<Rightarrow> signal option res" where
  "executeBlock n = r_executeBlock (evaluator_at n)"

definition executeStatement ::
    "nat \<Rightarrow> host \<Rightarrow> string \<Rightarrow> bool \<Rightarrow> statement \<Rightarrow> env \<Rightarrow> state \<Rightarrow> signal option res" where
  "executeStatement n = r_executeStatement (evaluator_at n)"

definition ifAlternates ::
    "nat \<Rightarrow> host \<Rightarrow> string \<Rightarrow> bool \<Rightarrow> (expression \<times> statement list) list \<Rightarrow> statement list option \<Rightarrow> env \<Rightarrow> state
       \<Rightarrow> signal option res" where
  "ifAlternates n = r_ifAlternates (evaluator_at n)"

definition whileLoop ::
    "nat \<Rightarrow> host \<Rightarrow> string \<Rightarrow> bool \<Rightarrow> expression \<Rightarrow> statement list \<Rightarrow> env \<Rightarrow> state \<Rightarrow> signal option res" where
  "whileLoop n = r_whileLoop (evaluator_at n)"

definition forLoop ::
    "nat \<Rightarrow> host \<Rightarrow> string \<Rightarrow> bool \<Rightarrow> string \<Rightarrow> nat \<Rightarrow> nat \<Rightarrow> statement list \<Rightarrow> env \<Rightarrow> state
       \<Rightarrow> signal option res" where
  "forLoop n = r_forLoop (evaluator_at n)"

definition evaluateExpression ::
    "nat \<Rightarrow> host \<Rightarrow> string \<Rightarrow> bool \<Rightarrow> expression \<Rightarrow> env \<Rightarrow> state \<Rightarrow> LuxValue res" where
  "evaluateExpression n = r_evaluateExpression (evaluator_at n)"

definition evaluateList ::
    "nat \<Rightarrow> host \<Rightarrow> string \<Rightarrow> bool \<Rightarrow> expression list \<Rightarrow> env \<Rightarrow> state \<Rightarrow> LuxValue list res" where
  "evaluateList n = r_evaluateList (evaluator_at n)"

definition importModule ::
    "nat \<Rightarrow> host \<Rightarrow> string \<Rightarrow> string \<Rightarrow> state \<Rightarrow> unit res" where
  "importModule n = r_importModule (evaluator_at n)"

definition interpretProgram ::
    "nat \<Rightarrow> host \<Rightarrow> string \<Rightarrow> bool \<Rightarrow> statement list \<Rightarrow> env option \<Rightarrow> state \<Rightarrow> interp_result res" where
  "interpretProgram n = r_interpretProgram (evaluator_at n)"

text \<open>The part of \<open>executeStatement\<close> and of \<open>evaluateExpression\<close> after the call of
  \<open>step\<close>: the switch on the node type, with the calls at fuel \<open>n\<close>.\<close>

definition executeStatementSwitch ::
    "nat \<Rightarrow> host \<Rightarrow> string \<Rightarrow> bool \<Rightarrow> statement \<Rightarrow> env \<Rightarrow> state \<Rightarrow> signal option res" where
  "executeStatementSwitch n = executeStatement_switch (evaluator_at n)"

definition evaluateExpressionSwitch ::
    "nat \<Rightarrow> host \<Rightarrow> string \<Rightarrow> bool \<Rightarrow> expression \<Rightarrow> env \<Rightarrow> state \<Rightarrow> LuxValue res" where
  "evaluateExpressionSwitch n = evaluateExpression_switch n (evaluator_at n)"

section \<open>The module loader (module-loader.ts)\<close>

text \<open>The constructor: an empty cache and loading set, and a global environment holding every
  built-in as a constant.\<close>

definition new_loader :: "host \<Rightarrow> world \<Rightarrow> state" where
  "new_loader h w =
     (case initial_env h None
             \<lparr>world = w, frames = (\<lambda>a. []), next_frame = 0, next_fn = 0, steps = 0,
              callStack = [], cache = Map.empty, loading = {}, globalEnv = (0, [])\<rparr> of
        (g, s) \<Rightarrow> s\<lparr>globalEnv := g\<rparr>)"

text \<open>\<open>runFile\<close>, for a path that is already absolute; the result is the \<open>error\<close> field. A
  missing file is the only read failure modelled.\<close>

definition runFile :: "nat \<Rightarrow> host \<Rightarrow> string \<Rightarrow> state \<Rightarrow> string option res" where
  "runFile n h absPath s =
     (case files (world s) absPath of
        None \<Rightarrow> Ok (Some (''ENOENT: no such file or directory, open '' @ quoted absPath)) s
      | Some source \<Rightarrow>
          (case parse_source h source absPath of
             Inl err \<Rightarrow> Ok (Some (format (syntax_exn err))) s
           | Inr program \<Rightarrow>
               bind (interpretProgram n h absPath True program (Some (globalEnv s)) s)
                 (\<lambda>result s1. Ok (res_error result) s1)))"

section \<open>The parser's primary rule\<close>







section \<open>Notions used in the statements\<close>

text \<open>The binding that \<open>get\<close> and \<open>set\<close> reach for a name: the entry of the nearest frame of
  the chain that has one.\<close>

fun chain_entry :: "frames \<Rightarrow> nat list \<Rightarrow> string \<Rightarrow> entry option" where
  "chain_entry fs [] name = None"
| "chain_entry fs (a # parent) name =
     (case map_of (fs a) name of
        Some en \<Rightarrow> Some en
      | None \<Rightarrow> chain_entry fs parent name)"


definition result_of :: "'a res \<Rightarrow> 'a option" where
  "result_of r = (case r of Ok a s \<Rightarrow> Some a | _ \<Rightarrow> None)"

text \<open>What the host receives from \<open>interpret\<close>: the output lines, the step count and the
  error string.\<close>

definition outcome :: "interp_result res \<Rightarrow> (string list \<times> nat \<times> string option) option" where
  "outcome r =
     (case r of
        Ok res s \<Rightarrow> Some (output_buf (world s), res_steps res, res_error res)
      | _ \<Rightarrow> None)"

definition state_of :: "'a res \<Rightarrow> state option" where
  "state_of r = (case r of Ok a s \<Rightarrow> Some s | Throw e s \<Rightarrow> Some s | OutOfFuel \<Rightarrow> None)"

definition thrown :: "'a res \<Rightarrow> exn option" where
  "thrown r = (case r of Throw e s \<Rightarrow> Some e | _ \<Rightarrow> None)"

text \<open>
  What every evaluation keeps, from the state it starts in to the state it ends in: the step
  counter does not decrease, the call-frame stack keeps what it held, the cache keeps its
  paths, and the loading set and the global environment are the same.
\<close>

definition INV :: "state \<Rightarrow> state \<Rightarrow> bool" where
  "INV s s' \<longleftrightarrow>
     steps s \<le> steps s' \<and> prefix (callStack s) (callStack s') \<and>
     dom (cache s) \<subseteq> dom (cache s') \<and> loading s' = loading s \<and> globalEnv s' = globalEnv s"

text \<open>A runtime error with the message of the step limit; a host none of whose built-ins
  throws that message.\<close>

definition is_budget :: "exn \<Rightarrow> bool" where
  "is_budget e = (case e of RuntimeError m f l c cs \<Rightarrow> m = limit_message | _ \<Rightarrow> False)"

definition quiet_host :: "host \<Rightarrow> bool" where
  "quiet_host h \<longleftrightarrow> (\<forall>name args w. fst (builtin_fn h name args w) \<noteq> Inl limit_message)"

definition pres :: "host \<Rightarrow> state \<Rightarrow> 'a res \<Rightarrow> bool" where
  "pres h s0 r =
     (case r of
        Ok a s \<Rightarrow> INV s0 s
      | Throw e s \<Rightarrow> INV s0 s \<and> (quiet_host h \<longrightarrow> is_budget e \<longrightarrow> STEP_LIMIT < steps s)
      | OutOfFuel \<Rightarrow> True)"

definition all_pres :: "nat \<Rightarrow> bool" where
  "all_pres n \<longleftrightarrow>
     (\<forall>h file oi stmts env s s0. INV s0 s \<longrightarrow> pres h s0 (executeBlock n h file oi stmts env s)) \<and>
     (\<forall>h file oi stmt env s s0. INV s0 s \<longrightarrow> pres h s0 (executeStatement n h file oi stmt env s)) \<and>
     (\<forall>h file oi alts alt env s s0. INV s0 s \<longrightarrow> pres h s0 (ifAlternates n h file oi alts alt env s)) \<and>
     (\<forall>h file oi c body env s s0. INV s0 s \<longrightarrow> pres h s0 (whileLoop n h file oi c body env s)) \<and>
     (\<forall>h file oi var a i body env s s0. INV s0 s \<longrightarrow> pres h s0 (forLoop n h file oi var a i body env s)) \<and>
     (\<forall>h file oi e env s s0. INV s0 s \<longrightarrow> pres h s0 (evaluateExpression n h file oi e env s)) \<and>
     (\<forall>h file oi es env s s0. INV s0 s \<longrightarrow> pres h s0 (evaluateList n h file oi es env s)) \<and>
     (\<forall>h p from s s0. INV s0 s \<longrightarrow> pres h s0 (importModule n h p from s)) \<and>
     (\<forall>h file oi prog genv s s0. INV s0 s \<longrightarrow> pres h s0 (interpretProgram n h file oi prog genv s))"

section \<open>A small host and programs for the examples\<close>

text \<open>
  A host with the one built-in \<open>println\<close>, exact on strings, \<open>nil\<close> and integer-valued
  numbers (all the examples print); exact arithmetic; \<open>String\<close> of an integer-valued number;
  and a parser that knows the two module sources of the example file system.
\<close>

definition demo_number_to_string :: "real \<Rightarrow> string" where
  "demo_number_to_string x =
     (if x < 0 then ''-'' @ string_of_nat (nat (- \<lfloor>x\<rfloor>)) else string_of_nat (nat \<lfloor>x\<rfloor>))"

definition demo_show :: "LuxValue \<Rightarrow> string" where
  "demo_show v =
     (case v of Str str \<Rightarrow> str | Num x \<Rightarrow> demo_number_to_string x | Nil \<Rightarrow> ''nil'' | _ \<Rightarrow> ''?'')"

definition demo_builtin :: "string \<Rightarrow> LuxValue list \<Rightarrow> world \<Rightarrow> (string + LuxValue) \<times> world" where
  "demo_builtin name args w =
     (if name = ''println''
      then (Inr Nil, w\<lparr>output_buf := output_buf w @ [join '' '' (map demo_show args)]\<rparr>)
      else (Inl (name @ '': not available''), w))"

definition good_source :: string where
  "good_source = ''println(1)''"

definition good_program :: "statement list" where
  "good_program =
     [ExpressionStatement (CallExpression ''println'' [NumberLiteral 1 False] 1 1) 1 1]"

definition bad_source :: string where
  "bad_source = ''println(2)'' @ [CHR 0x0A] @ ''boom''"

definition bad_program :: "statement list" where
  "bad_program =
     [ExpressionStatement (CallExpression ''println'' [NumberLiteral 2 False] 1 1) 1 1,
      ExpressionStatement (Identifier ''boom'') 2 1]"

definition demo_parse ::
  "string \<Rightarrow> string \<Rightarrow> (bool \<times> string \<times> string \<times> nat \<times> nat) + statement list" where
  "demo_parse src file =
     (if src = good_source then Inr good_program
      else if src = bad_source then Inr bad_program
      else Inl (False, ''Unexpected token'', file, 1, 1))"

definition demo_host :: host where
  "demo_host =
     \<lparr>builtin_names = [''println''],
      builtin_fn = demo_builtin,
      number_op = (\<lambda>op x y. if op = ''+'' then x + y else if op = ''-'' then x - y
                             else if op = ''*'' then x * y else x / y),
      number_to_string = demo_number_to_string,
      parse_source = demo_parse,
      path_resolve = (\<lambda>fromFile importPath. ''/'' @ importPath)\<rparr>"

definition demo_world :: world where
  "demo_world =
     \<lparr>arrays = (\<lambda>a. []), next_array = 0, output_buf = [],
      files = [''/good.lux'' \<mapsto> good_source, ''/bad.lux'' \<mapsto> bad_source]\<rparr>"

definition demo_state :: state where
  "demo_state = new_loader demo_host demo_world"


text \<open>\<open>const x = 1\<close>, \<open>let x = 2\<close>, \<open>x = 3\<close>, \<open>println(x)\<close>.\<close>

definition redeclare_program :: "statement list" where
  "redeclare_program =
     [ConstDeclaration ''x'' None (NumberLiteral 1 False) 1 1,
      LetDeclaration ''x'' None (Some (NumberLiteral 2 False)) 2 1,
      Assignment ''x'' (NumberLiteral 3 False) 3 1,
      ExpressionStatement (CallExpression ''println'' [Identifier ''x''] 4 1) 4 1]"

text \<open>\<open>const x = 1\<close>, \<open>x = 2\<close>.\<close>

definition reassign_program :: "statement list" where
  "reassign_program =
     [ConstDeclaration ''x'' None (NumberLiteral 1 False) 1 1,
      Assignment ''x'' (NumberLiteral 2 False) 2 1]"



text \<open>
  A program that loops forever inside a try/catch with an empty catch body:
  \<^verbatim>\<open>try
  while true do
  end
catch e
end\<close>
\<close>

definition swallow_program :: "statement list" where
  "swallow_program =
     [TryCatchStatement [WhileStatement (BooleanLiteral True) [] 2 3] ''e'' [] 1 1]"

text \<open>The loader state with a one-element array at address 0.\<close>

definition one_element_state :: state where
  "one_element_state =
     demo_state
       \<lparr>world := (world demo_state)\<lparr>arrays := (arrays (world demo_state))(0 := [Num 7]),
                                     next_array := 1\<rparr>\<rparr>"

text \<open>
  A main program that imports the failing module \<open>bad\<close> twice, each time inside a
  try/catch:
  \<^verbatim>\<open>try
  import "bad"
catch e
end
try
  import "bad"
catch e
end\<close>
\<close>

definition retry_program :: "statement list" where
  "retry_program =
     [TryCatchStatement [ImportStatement ''bad'' 2 3] ''e'' [] 1 1,
      TryCatchStatement [ImportStatement ''bad'' 6 3] ''e'' [] 5 1]"

text \<open>The loader state after \<open>import "good"\<close> from \<open>/main.lux\<close>.\<close>

definition imported_state :: state where
  "imported_state =
     demo_state
       \<lparr>world := (world demo_state)\<lparr>output_buf := [''1'']\<rparr>,
        frames := (frames demo_state)(1 := []),
        next_frame := 2,
        cache := [''/good.lux'' \<mapsto> (1, [0])]\<rparr>"




section \<open>The functions unfolded\<close>

text \<open>One equation per function and fuel: the body, with the calls at the lower fuel.\<close>

lemmas evaluator_defs =
  executeBlock_def executeStatement_def ifAlternates_def whileLoop_def forLoop_def evaluateExpression_def evaluateList_def importModule_def interpretProgram_def

lemma executeBlock_0 [simp]:
  "executeBlock 0 h file onImport stmts env s = OutOfFuel"
  by (simp add: executeBlock_def)

lemma executeBlock_Suc:
  "executeBlock (Suc n) h file onImport stmts env s =
     (case stmts of
        [] \<Rightarrow> Ok None s
      | stmt # rest \<Rightarrow>
          bind (executeStatement n h file onImport stmt env s) (\<lambda>result s1.
            case result of
              Some sig \<Rightarrow> Ok (Some sig) s1
            | None \<Rightarrow> executeBlock n h file onImport rest env s1))"
  unfolding evaluator_defs by (simp only: evaluator_at.simps evaluator.simps executeBlock_body_def)

lemma executeStatement_0 [simp]:
  "executeStatement 0 h file onImport stmt env s = OutOfFuel"
  by (simp add: executeStatement_def)

lemma executeStatement_entry:
  "executeStatement (Suc n) h file onImport stmt env s =
     bind (step file s) (\<lambda>u. executeStatementSwitch n h file onImport stmt env)"
  by (simp only: executeStatement_def executeStatementSwitch_def evaluator_at.simps evaluator.simps executeStatement_body_def)

lemma executeStatementSwitch_eq:
  "executeStatementSwitch n h file onImport stmt env s0 =
     (case stmt of
         LetDeclaration name ta init line col \<Rightarrow>
           bind (case init of
                   Some e \<Rightarrow> evaluateExpression n h file onImport e env s0
                 | None \<Rightarrow> Ok Nil s0) (\<lambda>v s1.
             Ok None (s1\<lparr>frames := env_define env name v False (frames s1)\<rparr>))
       | ConstDeclaration name ta e line col \<Rightarrow>
           bind (evaluateExpression n h file onImport e env s0) (\<lambda>v s1.
             Ok None (s1\<lparr>frames := env_define env name v True (frames s1)\<rparr>))
       | Assignment name e line col \<Rightarrow>
           bind (evaluateExpression n h file onImport e env s0) (\<lambda>v s1.
             case env_set (frames s1) env name v of
               Inl msg \<Rightarrow> Throw (RuntimeError msg file line col (callStack s1)) s1
             | Inr fs \<Rightarrow> Ok None (s1\<lparr>frames := fs\<rparr>))
       | IndexAssignment name ie ve line col \<Rightarrow>
           (case env_get (frames s0) env name of
              None \<Rightarrow> Throw (Error (''Undefined variable: '' @ quoted name)) s0
            | Some (Arr a) \<Rightarrow>
                bind (evaluateExpression n h file onImport ie env s0) (\<lambda>index s1.
                  case index of
                    Num x \<Rightarrow>
                      (if \<lfloor>x\<rfloor> < 0 \<or> \<lfloor>x\<rfloor> \<ge> int (length (arrays (world s1) a)) then
                         Throw (RuntimeError
                           (index_message h \<lfloor>x\<rfloor> (length (arrays (world s1) a)))
                           file line col (callStack s1)) s1
                       else
                         bind (evaluateExpression n h file onImport ve env s1) (\<lambda>v s2.
                           Ok None (s2\<lparr>world := array_write a (nat \<lfloor>x\<rfloor>) v (world s2)\<rparr>)))
                  | _ \<Rightarrow> Throw (RuntimeError ''Array index must be a number''
                           file line col (callStack s1)) s1)
            | Some other \<Rightarrow>
                Throw (RuntimeError (quoted name @ '' is not an array'')
                  file line col (callStack s0)) s0)
       | ExpressionStatement e line col \<Rightarrow>
           bind (evaluateExpression n h file onImport e env s0) (\<lambda>v s1. Ok None s1)
       | FunctionDeclaration name params rt body line col \<Rightarrow>
           Ok None (s0\<lparr>frames :=
                         env_define env name (LuxFunction (next_fn s0) name params body env) True
                           (frames s0),
                       next_fn := Suc (next_fn s0)\<rparr>)
       | ReturnStatement val line col \<Rightarrow>
           bind (case val of
                   Some e \<Rightarrow> evaluateExpression n h file onImport e env s0
                 | None \<Rightarrow> Ok Nil s0) (\<lambda>v s1.
             Ok (Some (ReturnSignal v)) s1)
       | BreakStatement line col \<Rightarrow> Ok (Some BreakSignal) s0
       | ContinueStatement line col \<Rightarrow> Ok (Some ContinueSignal) s0
       | IfStatement cond cons alts alt line col \<Rightarrow>
           bind (evaluateExpression n h file onImport cond env s0) (\<lambda>c s1.
             if isTruthy c then
               (case newEnvironment (Some env) s1 of
                  (blockEnv, s2) \<Rightarrow> executeBlock n h file onImport cons blockEnv s2)
             else ifAlternates n h file onImport alts alt env s1)
       | WhileStatement cond body line col \<Rightarrow>
           whileLoop n h file onImport cond body env s0
       | ForStatement var iter body line col \<Rightarrow>
           bind (evaluateExpression n h file onImport iter env s0) (\<lambda>iterable s1.
             case iterable of
               Arr a \<Rightarrow> forLoop n h file onImport var a 0 body env s1
             | _ \<Rightarrow> Throw (RuntimeError ''for..in requires an array''
                      file line col (callStack s1)) s1)
       | ImportStatement path line col \<Rightarrow>
           (if onImport then bind (importModule n h path file s0) (\<lambda>u s1. Ok None s1)
            else Ok None s0)
       | TryCatchStatement tryBody catchVariable catchBody line col \<Rightarrow>
           (case newEnvironment (Some env) s0 of
              (tryEnv, s1) \<Rightarrow>
                (case executeBlock n h file onImport tryBody tryEnv s1 of
                   Ok result s2 \<Rightarrow> Ok result s2
                 | Throw e s2 \<Rightarrow>
                     (case newEnvironment (Some env) s2 of
                        (catchEnv, s3) \<Rightarrow>
                          executeBlock n h file onImport catchBody catchEnv
                            (s3\<lparr>frames := env_define catchEnv catchVariable
                                            (Str (exn_message e)) False (frames s3)\<rparr>))
                 | OutOfFuel \<Rightarrow> OutOfFuel)))"
  unfolding evaluator_defs executeStatementSwitch_def by (simp only: executeStatement_switch_def)

lemma executeStatement_Suc:
  "executeStatement (Suc n) h file onImport stmt env s =
     bind (step file s) (\<lambda>u s0.
       case stmt of
         LetDeclaration name ta init line col \<Rightarrow>
           bind (case init of
                   Some e \<Rightarrow> evaluateExpression n h file onImport e env s0
                 | None \<Rightarrow> Ok Nil s0) (\<lambda>v s1.
             Ok None (s1\<lparr>frames := env_define env name v False (frames s1)\<rparr>))
       | ConstDeclaration name ta e line col \<Rightarrow>
           bind (evaluateExpression n h file onImport e env s0) (\<lambda>v s1.
             Ok None (s1\<lparr>frames := env_define env name v True (frames s1)\<rparr>))
       | Assignment name e line col \<Rightarrow>
           bind (evaluateExpression n h file onImport e env s0) (\<lambda>v s1.
             case env_set (frames s1) env name v of
               Inl msg \<Rightarrow> Throw (RuntimeError msg file line col (callStack s1)) s1
             | Inr fs \<Rightarrow> Ok None (s1\<lparr>frames := fs\<rparr>))
       | IndexAssignment name ie ve line col \<Rightarrow>
           (case env_get (frames s0) env name of
              None \<Rightarrow> Throw (Error (''Undefined variable: '' @ quoted name)) s0
            | Some (Arr a) \<Rightarrow>
                bind (evaluateExpression n h file onImport ie env s0) (\<lambda>index s1.
                  case index of
                    Num x \<Rightarrow>
                      (if \<lfloor>x\<rfloor> < 0 \<or> \<lfloor>x\<rfloor> \<ge> int (length (arrays (world s1) a)) then
                         Throw (RuntimeError
                           (index_message h \<lfloor>x\<rfloor> (length (arrays (world s1) a)))
                           file line col (callStack s1)) s1
                       else
                         bind (evaluateExpression n h file onImport ve env s1) (\<lambda>v s2.
                           Ok None (s2\<lparr>world := array_write a (nat \<lfloor>x\<rfloor>) v (world s2)\<rparr>)))
                  | _ \<Rightarrow> Throw (RuntimeError ''Array index must be a number''
                           file line col (callStack s1)) s1)
            | Some other \<Rightarrow>
                Throw (RuntimeError (quoted name @ '' is not an array'')
                  file line col (callStack s0)) s0)
       | ExpressionStatement e line col \<Rightarrow>
           bind (evaluateExpression n h file onImport e env s0) (\<lambda>v s1. Ok None s1)
       | FunctionDeclaration name params rt body line col \<Rightarrow>
           Ok None (s0\<lparr>frames :=
                         env_define env name (LuxFunction (next_fn s0) name params body env) True
                           (frames s0),
                       next_fn := Suc (next_fn s0)\<rparr>)
       | ReturnStatement val line col \<Rightarrow>
           bind (case val of
                   Some e \<Rightarrow> evaluateExpression n h file onImport e env s0
                 | None \<Rightarrow> Ok Nil s0) (\<lambda>v s1.
             Ok (Some (ReturnSignal v)) s1)
       | BreakStatement line col \<Rightarrow> Ok (Some BreakSignal) s0
       | ContinueStatement line col \<Rightarrow> Ok (Some ContinueSignal) s0
       | IfStatement cond cons alts alt line col \<Rightarrow>
           bind (evaluateExpression n h file onImport cond env s0) (\<lambda>c s1.
             if isTruthy c then
               (case newEnvironment (Some env) s1 of
                  (blockEnv, s2) \<Rightarrow> executeBlock n h file onImport cons blockEnv s2)
             else ifAlternates n h file onImport alts alt env s1)
       | WhileStatement cond body line col \<Rightarrow>
           whileLoop n h file onImport cond body env s0
       | ForStatement var iter body line col \<Rightarrow>
           bind (evaluateExpression n h file onImport iter env s0) (\<lambda>iterable s1.
             case iterable of
               Arr a \<Rightarrow> forLoop n h file onImport var a 0 body env s1
             | _ \<Rightarrow> Throw (RuntimeError ''for..in requires an array''
                      file line col (callStack s1)) s1)
       | ImportStatement path line col \<Rightarrow>
           (if onImport then bind (importModule n h path file s0) (\<lambda>u s1. Ok None s1)
            else Ok None s0)
       | TryCatchStatement tryBody catchVariable catchBody line col \<Rightarrow>
           (case newEnvironment (Some env) s0 of
              (tryEnv, s1) \<Rightarrow>
                (case executeBlock n h file onImport tryBody tryEnv s1 of
                   Ok result s2 \<Rightarrow> Ok result s2
                 | Throw e s2 \<Rightarrow>
                     (case newEnvironment (Some env) s2 of
                        (catchEnv, s3) \<Rightarrow>
                          executeBlock n h file onImport catchBody catchEnv
                            (s3\<lparr>frames := env_define catchEnv catchVariable
                                            (Str (exn_message e)) False (frames s3)\<rparr>))
                 | OutOfFuel \<Rightarrow> OutOfFuel)))"
  unfolding executeStatement_entry
  by (rule arg_cong [where f = "bind (step file s)"], rule ext, rule ext, rule executeStatementSwitch_eq)

lemma ifAlternates_0 [simp]:
  "ifAlternates 0 h file onImport alts alt env s = OutOfFuel"
  by (simp add: ifAlternates_def)

lemma ifAlternates_Suc:
  "ifAlternates (Suc n) h file onImport alts alt env s =
     (case alts of
        [] \<Rightarrow>
          (case alt of
             Some body \<Rightarrow>
               (case newEnvironment (Some env) s of
                  (blockEnv, s1) \<Rightarrow> executeBlock n h file onImport body blockEnv s1)
           | None \<Rightarrow> Ok None s)
      | a # rest \<Rightarrow>
          bind (evaluateExpression n h file onImport (fst a) env s) (\<lambda>c s1.
            if isTruthy c then
              (case newEnvironment (Some env) s1 of
                 (blockEnv, s2) \<Rightarrow> executeBlock n h file onImport (snd a) blockEnv s2)
            else ifAlternates n h file onImport rest alt env s1))"
  unfolding evaluator_defs by (simp only: evaluator_at.simps evaluator.simps ifAlternates_body_def)

lemma whileLoop_0 [simp]:
  "whileLoop 0 h file onImport cond body env s = OutOfFuel"
  by (simp add: whileLoop_def)

lemma whileLoop_Suc:
  "whileLoop (Suc n) h file onImport cond body env s =
     bind (evaluateExpression n h file onImport cond env s) (\<lambda>c s1.
       if isTruthy c then
         bind (step file s1) (\<lambda>u s2.
           case newEnvironment (Some env) s2 of
             (blockEnv, s3) \<Rightarrow>
               bind (executeBlock n h file onImport body blockEnv s3) (\<lambda>result s4.
                 case result of
                   Some (ReturnSignal v) \<Rightarrow> Ok result s4
                 | Some BreakSignal \<Rightarrow> Ok None s4
                 | _ \<Rightarrow> whileLoop n h file onImport cond body env s4))
       else Ok None s1)"
  unfolding evaluator_defs by (simp only: evaluator_at.simps evaluator.simps whileLoop_body_def)

lemma forLoop_0 [simp]:
  "forLoop 0 h file onImport var a i body env s = OutOfFuel"
  by (simp add: forLoop_def)

lemma forLoop_Suc:
  "forLoop (Suc n) h file onImport var a i body env s =
     (if i < length (arrays (world s) a) then
        bind (step file s) (\<lambda>u s1.
          case newEnvironment (Some env) s1 of
            (blockEnv, s2) \<Rightarrow>
              bind (executeBlock n h file onImport body blockEnv
                      (s2\<lparr>frames := env_define blockEnv var (read_elem (arrays (world s) a ! i))
                                      False (frames s2)\<rparr>))
                (\<lambda>result s3.
                  case result of
                    Some (ReturnSignal v) \<Rightarrow> Ok result s3
                  | Some BreakSignal \<Rightarrow> Ok None s3
                  | _ \<Rightarrow> forLoop n h file onImport var a (Suc i) body env s3))
      else Ok None s)"
  unfolding evaluator_defs by (simp only: evaluator_at.simps evaluator.simps forLoop_body_def)

lemma evaluateExpression_0 [simp]:
  "evaluateExpression 0 h file onImport expr env s = OutOfFuel"
  by (simp add: evaluateExpression_def)

lemma evaluateExpression_entry:
  "evaluateExpression (Suc n) h file onImport expr env s =
     bind (step file s) (\<lambda>u. evaluateExpressionSwitch n h file onImport expr env)"
  by (simp only: evaluateExpression_def evaluateExpressionSwitch_def evaluator_at.simps evaluator.simps evaluateExpression_body_def)

lemma evaluateExpressionSwitch_eq:
  "evaluateExpressionSwitch n h file onImport expr env s0 =
     (case expr of
         NumberLiteral x isFloat \<Rightarrow> Ok (Num x) s0
       | StringLiteral str \<Rightarrow> Ok (Str str) s0
       | BooleanLiteral b \<Rightarrow> Ok (Bool b) s0
       | NilLiteral \<Rightarrow> Ok Nil s0
       | Identifier name \<Rightarrow>
           (case env_get (frames s0) env name of
              Some v \<Rightarrow> Ok v s0
            | None \<Rightarrow> Throw (RuntimeError (''Undefined variable: '' @ quoted name)
                        file 0 0 (callStack s0)) s0)
       | ArrayLiteral elements \<Rightarrow>
           bind (evaluateList n h file onImport elements env s0) (\<lambda>vs s1.
             case alloc_array vs (world s1) of
               (a, w) \<Rightarrow> Ok (Arr a) (s1\<lparr>world := w\<rparr>))
       | UnaryExpression op e \<Rightarrow>
           bind (evaluateExpression n h file onImport e env s0) (\<lambda>operand s1.
             if op = ''-'' then
               (case operand of
                  Num x \<Rightarrow> Ok (Num (- x)) s1
                | _ \<Rightarrow> Throw (RuntimeError (''Unary '' @ quoted ''-'' @ '' requires a number'')
                         file 0 0 (callStack s1)) s1)
             else if op = ''not'' then Ok (Bool (\<not> isTruthy operand)) s1
             else Throw (RuntimeError (''Unknown unary operator: '' @ op)
                    file 0 0 (callStack s1)) s1)
       | BinaryExpression op l r \<Rightarrow>
           (if op = ''and'' then
              bind (evaluateExpression n h file onImport l env s0) (\<lambda>left s1.
                if \<not> isTruthy left then Ok left s1
                else evaluateExpression n h file onImport r env s1)
            else if op = ''or'' then
              bind (evaluateExpression n h file onImport l env s0) (\<lambda>left s1.
                if isTruthy left then Ok left s1
                else evaluateExpression n h file onImport r env s1)
            else
              bind (evaluateExpression n h file onImport l env s0) (\<lambda>left s1.
                bind (evaluateExpression n h file onImport r env s1) (\<lambda>right s2.
                  case evaluateBinaryOp n h file (callStack s2) (arrays (world s2)) op left right of
                    None \<Rightarrow> OutOfFuel
                  | Some (Inl e) \<Rightarrow> Throw e s2
                  | Some (Inr v) \<Rightarrow> Ok v s2)))
       | CallExpression callee arguments line col \<Rightarrow>
           (case env_get (frames s0) env callee of
              None \<Rightarrow> Throw (RuntimeError (''Undefined function: '' @ quoted callee)
                        file line col (callStack s0)) s0
            | Some f \<Rightarrow>
                bind (evaluateList n h file onImport arguments env s0) (\<lambda>args s1.
                  case f of
                    Builtin name \<Rightarrow>
                      (case builtin_fn h name args (world s1) of
                         (Inl msg, w) \<Rightarrow>
                           Throw (RuntimeError msg file line col (callStack s1)) (s1\<lparr>world := w\<rparr>)
                       | (Inr v, w) \<Rightarrow> Ok v (s1\<lparr>world := w\<rparr>))
                  | LuxFunction i name params body clo \<Rightarrow>
                      (case newEnvironment (Some clo)
                              (s1\<lparr>callStack := callStack s1 @ [StackFrame name file line col]\<rparr>) of
                         (funcEnv, s2) \<Rightarrow>
                           (case executeBlock n h file onImport body funcEnv
                                   (s2\<lparr>frames := bind_params funcEnv params args (frames s2)\<rparr>) of
                              Ok result s3 \<Rightarrow>
                                Ok (case result of Some (ReturnSignal v) \<Rightarrow> v | _ \<Rightarrow> Nil)
                                   (s3\<lparr>callStack := butlast (callStack s3)\<rparr>)
                            | Throw e s3 \<Rightarrow> Throw e s3
                            | OutOfFuel \<Rightarrow> OutOfFuel))
                  | _ \<Rightarrow> Throw (RuntimeError (quoted callee @ '' is not a function'')
                           file line col (callStack s1)) s1))
       | IndexExpression oe ie \<Rightarrow>
           bind (evaluateExpression n h file onImport oe env s0) (\<lambda>obj s1.
             bind (evaluateExpression n h file onImport ie env s1) (\<lambda>index s2.
               case obj of
                 Arr a \<Rightarrow>
                   (case index of
                      Num x \<Rightarrow>
                        (if \<lfloor>x\<rfloor> < 0 \<or> \<lfloor>x\<rfloor> \<ge> int (length (arrays (world s2) a)) then
                           Throw (RuntimeError
                             (index_message h \<lfloor>x\<rfloor> (length (arrays (world s2) a)))
                             file 0 0 (callStack s2)) s2
                         else Ok (read_elem (arrays (world s2) a ! nat \<lfloor>x\<rfloor>)) s2)
                    | _ \<Rightarrow> Throw (RuntimeError ''Array index must be a number''
                             file 0 0 (callStack s2)) s2)
               | Str str \<Rightarrow>
                   (case index of
                      Num x \<Rightarrow>
                        (if \<lfloor>x\<rfloor> < 0 \<or> \<lfloor>x\<rfloor> \<ge> int (length str) then
                           Throw (RuntimeError (index_message h \<lfloor>x\<rfloor> (length str))
                             file 0 0 (callStack s2)) s2
                         else Ok (Str [str ! nat \<lfloor>x\<rfloor>]) s2)
                    | _ \<Rightarrow> Throw (RuntimeError ''String index must be a number''
                             file 0 0 (callStack s2)) s2)
               | _ \<Rightarrow> Throw (RuntimeError ''Index operator requires an array or string''
                        file 0 0 (callStack s2)) s2)))"
  unfolding evaluator_defs evaluateExpressionSwitch_def by (simp only: evaluateExpression_switch_def)

lemma evaluateExpression_Suc:
  "evaluateExpression (Suc n) h file onImport expr env s =
     bind (step file s) (\<lambda>u s0.
       case expr of
         NumberLiteral x isFloat \<Rightarrow> Ok (Num x) s0
       | StringLiteral str \<Rightarrow> Ok (Str str) s0
       | BooleanLiteral b \<Rightarrow> Ok (Bool b) s0
       | NilLiteral \<Rightarrow> Ok Nil s0
       | Identifier name \<Rightarrow>
           (case env_get (frames s0) env name of
              Some v \<Rightarrow> Ok v s0
            | None \<Rightarrow> Throw (RuntimeError (''Undefined variable: '' @ quoted name)
                        file 0 0 (callStack s0)) s0)
       | ArrayLiteral elements \<Rightarrow>
           bind (evaluateList n h file onImport elements env s0) (\<lambda>vs s1.
             case alloc_array vs (world s1) of
               (a, w) \<Rightarrow> Ok (Arr a) (s1\<lparr>world := w\<rparr>))
       | UnaryExpression op e \<Rightarrow>
           bind (evaluateExpression n h file onImport e env s0) (\<lambda>operand s1.
             if op = ''-'' then
               (case operand of
                  Num x \<Rightarrow> Ok (Num (- x)) s1
                | _ \<Rightarrow> Throw (RuntimeError (''Unary '' @ quoted ''-'' @ '' requires a number'')
                         file 0 0 (callStack s1)) s1)
             else if op = ''not'' then Ok (Bool (\<not> isTruthy operand)) s1
             else Throw (RuntimeError (''Unknown unary operator: '' @ op)
                    file 0 0 (callStack s1)) s1)
       | BinaryExpression op l r \<Rightarrow>
           (if op = ''and'' then
              bind (evaluateExpression n h file onImport l env s0) (\<lambda>left s1.
                if \<not> isTruthy left then Ok left s1
                else evaluateExpression n h file onImport r env s1)
            else if op = ''or'' then
              bind (evaluateExpression n h file onImport l env s0) (\<lambda>left s1.
                if isTruthy left then Ok left s1
                else evaluateExpression n h file onImport r env s1)
            else
              bind (evaluateExpression n h file onImport l env s0) (\<lambda>left s1.
                bind (evaluateExpression n h file onImport r env s1) (\<lambda>right s2.
                  case evaluateBinaryOp n h file (callStack s2) (arrays (world s2)) op left right of
                    None \<Rightarrow> OutOfFuel
                  | Some (Inl e) \<Rightarrow> Throw e s2
                  | Some (Inr v) \<Rightarrow> Ok v s2)))
       | CallExpression callee arguments line col \<Rightarrow>
           (case env_get (frames s0) env callee of
              None \<Rightarrow> Throw (RuntimeError (''Undefined function: '' @ quoted callee)
                        file line col (callStack s0)) s0
            | Some f \<Rightarrow>
                bind (evaluateList n h file onImport arguments env s0) (\<lambda>args s1.
                  case f of
                    Builtin name \<Rightarrow>
                      (case builtin_fn h name args (world s1) of
                         (Inl msg, w) \<Rightarrow>
                           Throw (RuntimeError msg file line col (callStack s1)) (s1\<lparr>world := w\<rparr>)
                       | (Inr v, w) \<Rightarrow> Ok v (s1\<lparr>world := w\<rparr>))
                  | LuxFunction i name params body clo \<Rightarrow>
                      (case newEnvironment (Some clo)
                              (s1\<lparr>callStack := callStack s1 @ [StackFrame name file line col]\<rparr>) of
                         (funcEnv, s2) \<Rightarrow>
                           (case executeBlock n h file onImport body funcEnv
                                   (s2\<lparr>frames := bind_params funcEnv params args (frames s2)\<rparr>) of
                              Ok result s3 \<Rightarrow>
                                Ok (case result of Some (ReturnSignal v) \<Rightarrow> v | _ \<Rightarrow> Nil)
                                   (s3\<lparr>callStack := butlast (callStack s3)\<rparr>)
                            | Throw e s3 \<Rightarrow> Throw e s3
                            | OutOfFuel \<Rightarrow> OutOfFuel))
                  | _ \<Rightarrow> Throw (RuntimeError (quoted callee @ '' is not a function'')
                           file line col (callStack s1)) s1))
       | IndexExpression oe ie \<Rightarrow>
           bind (evaluateExpression n h file onImport oe env s0) (\<lambda>obj s1.
             bind (evaluateExpression n h file onImport ie env s1) (\<lambda>index s2.
               case obj of
                 Arr a \<Rightarrow>
                   (case index of
                      Num x \<Rightarrow>
                        (if \<lfloor>x\<rfloor> < 0 \<or> \<lfloor>x\<rfloor> \<ge> int (length (arrays (world s2) a)) then
                           Throw (RuntimeError
                             (index_message h \<lfloor>x\<rfloor> (length (arrays (world s2) a)))
                             file 0 0 (callStack s2)) s2
                         else Ok (read_elem (arrays (world s2) a ! nat \<lfloor>x\<rfloor>)) s2)
                    | _ \<Rightarrow> Throw (RuntimeError ''Array index must be a number''
                             file 0 0 (callStack s2)) s2)
               | Str str \<Rightarrow>
                   (case index of
                      Num x \<Rightarrow>
                        (if \<lfloor>x\<rfloor> < 0 \<or> \<lfloor>x\<rfloor> \<ge> int (length str) then
                           Throw (RuntimeError (index_message h \<lfloor>x\<rfloor> (length str))
                             file 0 0 (callStack s2)) s2
                         else Ok (Str [str ! nat \<lfloor>x\<rfloor>]) s2)
                    | _ \<Rightarrow> Throw (RuntimeError ''String index must be a number''
                             file 0 0 (callStack s2)) s2)
               | _ \<Rightarrow> Throw (RuntimeError ''Index operator requires an array or string''
                        file 0 0 (callStack s2)) s2)))"
  unfolding evaluateExpression_entry
  by (rule arg_cong [where f = "bind (step file s)"], rule ext, rule ext, rule evaluateExpressionSwitch_eq)

lemma evaluateList_0 [simp]:
  "evaluateList 0 h file onImport es env s = OutOfFuel"
  by (simp add: evaluateList_def)

lemma evaluateList_Suc:
  "evaluateList (Suc n) h file onImport es env s =
     (case es of
        [] \<Rightarrow> Ok [] s
      | e # rest \<Rightarrow>
          bind (evaluateExpression n h file onImport e env s) (\<lambda>v s1.
            bind (evaluateList n h file onImport rest env s1) (\<lambda>vs s2. Ok (v # vs) s2)))"
  unfolding evaluator_defs by (simp only: evaluator_at.simps evaluator.simps evaluateList_body_def)

lemma importModule_0 [simp]:
  "importModule 0 h importPath fromFile s = OutOfFuel"
  by (simp add: importModule_def)

lemma importModule_Suc:
  "importModule (Suc n) h importPath fromFile s =
     (if resolve_import h importPath fromFile \<in> loading s then
        Throw (Error (''Circular import detected: '' @ resolve_import h importPath fromFile)) s
      else
        (case cache s (resolve_import h importPath fromFile) of
           Some moduleEnv \<Rightarrow> Ok () (mergeExports moduleEnv s)
         | None \<Rightarrow>
             (case files (world s) (resolve_import h importPath fromFile) of
                None \<Rightarrow>
                  Throw (Error (''Module not found: '' @ resolve_import h importPath fromFile)) s
              | Some source \<Rightarrow>
                  finally_delete (resolve_import h importPath fromFile)
                    (case parse_source h source (resolve_import h importPath fromFile) of
                       Inl err \<Rightarrow>
                         Throw (syntax_exn err)
                           (s\<lparr>loading := insert (resolve_import h importPath fromFile) (loading s)\<rparr>)
                     | Inr program \<Rightarrow>
                         (case newEnvironment (Some (globalEnv s))
                                 (s\<lparr>loading :=
                                      insert (resolve_import h importPath fromFile) (loading s)\<rparr>) of
                            (moduleEnv, s1) \<Rightarrow>
                              bind (interpretProgram n h (resolve_import h importPath fromFile) True
                                      program (Some moduleEnv) s1)
                                (\<lambda>result s2.
                                  case res_error result of
                                    Some err \<Rightarrow>
                                      Throw (Error (''Error in module '' @
                                        resolve_import h importPath fromFile @ '': '' @ err)) s2
                                  | None \<Rightarrow>
                                      Ok () (mergeExports (res_env result)
                                        (s2\<lparr>cache := (cache s2)
                                           (resolve_import h importPath fromFile \<mapsto>
                                              res_env result)\<rparr>))))))))"
  unfolding evaluator_defs by (simp only: evaluator_at.simps evaluator.simps importModule_body_def)

lemma interpretProgram_0 [simp]:
  "interpretProgram 0 h file onImport program genv s = OutOfFuel"
  by (simp add: interpretProgram_def)

lemma interpretProgram_Suc:
  "interpretProgram (Suc n) h file onImport program genv s =
     (case initial_env h genv s of
        (globalEnv0, s0) \<Rightarrow>
          (case executeBlock n h file onImport program globalEnv0
                  (s0\<lparr>steps := 0, callStack := []\<rparr>) of
             Ok result s1 \<Rightarrow>
               Ok (Result (steps s1) None globalEnv0)
                  (s1\<lparr>steps := steps s, callStack := callStack s\<rparr>)
           | Throw e s1 \<Rightarrow>
               Ok (Result (steps s1)
                     (Some (case e of RuntimeError m f l c cs \<Rightarrow> format e | _ \<Rightarrow> exn_message e))
                     globalEnv0)
                  (s1\<lparr>steps := steps s, callStack := callStack s\<rparr>)
           | OutOfFuel \<Rightarrow> OutOfFuel))"
  unfolding evaluator_defs by (simp only: evaluator_at.simps evaluator.simps interpretProgram_body_def)

section \<open>Running the functions on a given fuel\<close>

text \<open>The equations for a numeral fuel, for evaluating a concrete program by rewriting; the
  congruence rule keeps the continuation of \<open>bind\<close> untouched until its first argument is
  a result.\<close>

lemma bind_weak_cong: "r = r' \<Longrightarrow> bind r k = bind r' k"
  by simp

lemma bind_simps [simp]:
  "bind (Ok a s) k = k a s" "bind (Throw e s) k = Throw e s" "bind OutOfFuel k = OutOfFuel"
  by (simp_all add: bind_def)

lemmas executeBlock_numeral =
  executeBlock_Suc [where n = "pred_numeral k" for k, unfolded numeral_eq_Suc[symmetric]]
lemmas executeStatement_numeral =
  executeStatement_Suc [where n = "pred_numeral k" for k, unfolded numeral_eq_Suc[symmetric]]
lemmas ifAlternates_numeral =
  ifAlternates_Suc [where n = "pred_numeral k" for k, unfolded numeral_eq_Suc[symmetric]]
lemmas whileLoop_numeral =
  whileLoop_Suc [where n = "pred_numeral k" for k, unfolded numeral_eq_Suc[symmetric]]
lemmas forLoop_numeral =
  forLoop_Suc [where n = "pred_numeral k" for k, unfolded numeral_eq_Suc[symmetric]]
lemmas evaluateExpression_numeral =
  evaluateExpression_Suc [where n = "pred_numeral k" for k, unfolded numeral_eq_Suc[symmetric]]
lemmas evaluateList_numeral =
  evaluateList_Suc [where n = "pred_numeral k" for k, unfolded numeral_eq_Suc[symmetric]]
lemmas importModule_numeral =
  importModule_Suc [where n = "pred_numeral k" for k, unfolded numeral_eq_Suc[symmetric]]
lemmas interpretProgram_numeral =
  interpretProgram_Suc [where n = "pred_numeral k" for k, unfolded numeral_eq_Suc[symmetric]]

lemmas run_simps =
  executeBlock_numeral executeStatement_numeral ifAlternates_numeral whileLoop_numeral
  forLoop_numeral evaluateExpression_numeral evaluateList_numeral importModule_numeral
  interpretProgram_numeral
  executeBlock_Suc executeStatement_Suc ifAlternates_Suc whileLoop_Suc forLoop_Suc
  evaluateExpression_Suc evaluateList_Suc importModule_Suc interpretProgram_Suc
  step_def STEP_LIMIT_def initial_env_def newEnvironment_def alloc_array_def
  env_define_def env_get_def env_set_def env_has_def chain_def quoted_def
  getOwnNames_def getOwnEntry_def mergeExports_def mergeOne_def is_callable_def
  resolve_import_def ends_with_def finally_delete_def read_elem_def index_message_def
  array_write_def write_at_def evaluateBinaryOp_def binaryOpRest_def is_string_def

lemma floor_minus_one_real: "\<lfloor>- 1 :: real\<rfloor> = - 1"
  by (simp add: floor_eq_iff)

lemmas demo_simps = floor_minus_one_real
  demo_host_def demo_builtin_def demo_show_def demo_number_to_string_def demo_parse_def
  demo_world_def demo_state_def new_loader_def good_source_def good_program_def
  bad_source_def bad_program_def string_of_nat.simps digit_char_def

section \<open>What every evaluation keeps\<close>






lemma INV_refl [simp]: "INV s s"
  by (simp add: INV_def)

lemma INV_trans: "INV a b \<Longrightarrow> INV b c \<Longrightarrow> INV a c"
  by (auto simp: INV_def intro: prefix_order.trans)

lemma pres_Ok [simp]: "pres h s0 (Ok a s) = INV s0 s"
  by (simp add: pres_def)

lemma pres_OutOfFuel [simp]: "pres h s0 OutOfFuel"
  by (simp add: pres_def)

lemma pres_Throw:
  "pres h s0 (Throw e s) = (INV s0 s \<and> (quiet_host h \<longrightarrow> is_budget e \<longrightarrow> STEP_LIMIT < steps s))"
  by (simp add: pres_def)

lemma not_budget_simps [simp]:
  "\<not> is_budget (Error m)" "\<not> is_budget (LexerError m f l c)" "\<not> is_budget (ParseError m f l c)"
  "\<not> is_budget (syntax_exn err)"
  by (cases err; simp add: is_budget_def)+

lemma is_budget_Runtime: "is_budget (RuntimeError m f l c cs) = (m = limit_message)"
  by (simp add: is_budget_def)

lemma pres_bind:
  assumes "pres h s0 m" and "\<And>a s1. m = Ok a s1 \<Longrightarrow> INV s0 s1 \<Longrightarrow> pres h s0 (k a s1)"
  shows "pres h s0 (bind m k)"
  using assms by (cases m) (auto simp: bind_def pres_def)

lemma pres_res_case:
  assumes "pres h s0 r"
    and "\<And>a s1. r = Ok a s1 \<Longrightarrow> INV s0 s1 \<Longrightarrow> pres h s0 (f a s1)"
    and "\<And>e s1. r = Throw e s1 \<Longrightarrow> INV s0 s1 \<Longrightarrow>
           (quiet_host h \<Longrightarrow> is_budget e \<Longrightarrow> STEP_LIMIT < steps s1) \<Longrightarrow> pres h s0 (g e s1)"
  shows "pres h s0 (case r of Ok a s \<Rightarrow> f a s | Throw e s \<Rightarrow> g e s | OutOfFuel \<Rightarrow> OutOfFuel)"
  using assms by (cases r) (auto simp: pres_def)

lemma pres_step: "INV s0 s \<Longrightarrow> pres h s0 (step file s)"
  by (auto simp: step_def pres_def INV_def Let_def)

lemma step_Ok_INV: "step file s = Ok u s1 \<Longrightarrow> INV s s1"
  by (auto simp: step_def INV_def Let_def split: if_splits)

lemma INV_frames [simp]: "INV s0 (s\<lparr>frames := f\<rparr>) = INV s0 s"
  and INV_world [simp]: "INV s0 (s\<lparr>world := w\<rparr>) = INV s0 s"
  and INV_next_fn [simp]: "INV s0 (s\<lparr>next_fn := k\<rparr>) = INV s0 s"
  and INV_next_frame [simp]: "INV s0 (s\<lparr>next_frame := k\<rparr>) = INV s0 s"
  by (simp_all add: INV_def)

lemma INV_newEnvironment [simp]: "INV s0 (snd (newEnvironment p s)) = INV s0 s"
  by (simp add: newEnvironment_def)

lemma newEnvironment_eq: "newEnvironment p s = (e, s1) \<Longrightarrow> INV s0 s1 = INV s0 s"
  by (auto simp: newEnvironment_def)

lemma INV_mergeExports [simp]: "INV s0 (mergeExports m s) = INV s0 s"
  by (simp add: mergeExports_def)

lemma INV_push: "INV s0 s \<Longrightarrow> INV s0 (s\<lparr>callStack := callStack s @ [fr]\<rparr>)"
  by (auto simp: INV_def)

lemma prefix_butlast: "prefix (xs @ [x]) ys \<Longrightarrow> prefix xs (butlast ys)"
  by (auto simp: prefix_def butlast_append)

lemma INV_pop:
  assumes "INV s0 s1" and "INV (s1\<lparr>callStack := callStack s1 @ [fr]\<rparr>) s3"
  shows "INV s0 (s3\<lparr>callStack := butlast (callStack s3)\<rparr>)"
proof -
  from assms(2) have "prefix (callStack s1 @ [fr]) (callStack s3)"
    by (simp add: INV_def)
  then have "prefix (callStack s1) (butlast (callStack s3))"
    by (rule prefix_butlast)
  with assms show ?thesis
    by (auto simp: INV_def intro: prefix_order.trans)
qed




lemma all_presD:
  assumes "all_pres n" and "INV s0 s"
  shows "pres h s0 (executeBlock n h file oi stmts env s)"
    and "pres h s0 (executeStatement n h file oi stmt env s)"
    and "pres h s0 (ifAlternates n h file oi alts alt env s)"
    and "pres h s0 (whileLoop n h file oi c body env s)"
    and "pres h s0 (forLoop n h file oi var a i body env s)"
    and "pres h s0 (evaluateExpression n h file oi e env s)"
    and "pres h s0 (evaluateList n h file oi es env s)"
    and "pres h s0 (importModule n h p from s)"
    and "pres h s0 (interpretProgram n h file oi prog genv s)"
  using assms unfolding all_pres_def by (simp_all del: split_paired_All)

lemma chain_set_message: "chain_set fs c name v = Inl msg \<Longrightarrow> msg \<noteq> limit_message"
  by (induction c) (auto simp: limit_message_def quoted_def split: option.splits if_splits)

lemma env_set_message: "env_set fs e name v = Inl msg \<Longrightarrow> msg \<noteq> limit_message"
  by (auto simp: env_set_def dest: chain_set_message)

lemma binaryOpRest_not_budget: "binaryOpRest file cs op l r = Inl e \<Longrightarrow> \<not> is_budget e"
  by (auto simp: binaryOpRest_def is_budget_def limit_message_def
           split: if_splits LuxValue.splits)

lemma evaluateBinaryOp_not_budget:
  "evaluateBinaryOp n h file cs arrs op l r = Some (Inl e) \<Longrightarrow> \<not> is_budget e"
  by (auto simp: evaluateBinaryOp_def is_budget_def limit_message_def
           dest: binaryOpRest_not_budget
           split: if_splits LuxValue.splits option.splits)

lemma pres_block_Suc:
  assumes "all_pres n" and "INV s0 s"
  shows "pres h s0 (executeBlock (Suc n) h file oi stmts env s)"
  unfolding executeBlock_Suc using assms
  by (auto intro!: pres_bind all_presD split: list.splits option.splits)

lemma pres_list_Suc:
  assumes "all_pres n" and "INV s0 s"
  shows "pres h s0 (evaluateList (Suc n) h file oi es env s)"
  unfolding evaluateList_Suc using assms
  by (auto intro!: pres_bind all_presD split: list.splits)

lemma pres_alts_Suc:
  assumes "all_pres n" and "INV s0 s"
  shows "pres h s0 (ifAlternates (Suc n) h file oi alts alt env s)"
  unfolding ifAlternates_Suc using assms
  by (auto intro!: pres_bind all_presD simp: newEnvironment_eq split: list.splits option.splits prod.splits)

lemma pres_while_Suc:
  assumes "all_pres n" and "INV s0 s"
  shows "pres h s0 (whileLoop (Suc n) h file oi c body env s)"
  unfolding whileLoop_Suc using assms
  by (auto intro!: pres_bind pres_step all_presD simp: newEnvironment_eq
           split: option.splits prod.splits signal.splits)

lemma pres_for_Suc:
  assumes "all_pres n" and "INV s0 s"
  shows "pres h s0 (forLoop (Suc n) h file oi var a i body env s)"
  unfolding forLoop_Suc using assms
  by (auto intro!: pres_bind pres_step all_presD simp: newEnvironment_eq
           split: option.splits prod.splits signal.splits)



lemma pres_stmt_switch:
  assumes A: "all_pres n" and I1: "INV s0 s1"
  shows "pres h s0 (executeStatementSwitch n h file oi stmt env s1)"
  unfolding executeStatementSwitch_eq
proof (goal_cases)
  case 1
  note D = all_presD[OF A]
  show ?case
  proof (cases stmt)
    case (LetDeclaration name ta init line col)
    then show ?thesis using I1
      by (auto intro!: pres_bind D split: option.splits)
  next
    case (ConstDeclaration name ta e line col)
    then show ?thesis using I1 by (auto intro!: pres_bind D)
  next
    case (Assignment name e line col)
    then show ?thesis using I1
      by (auto intro!: pres_bind D simp: pres_Throw is_budget_Runtime dest: env_set_message
               split: sum.splits)
  next
    case (IndexAssignment name ie ve line col)
    then show ?thesis using I1
      by (auto intro!: pres_bind D
               simp: pres_Throw is_budget_Runtime index_message_def limit_message_def quoted_def
               split: option.splits LuxValue.splits)
  next
    case (IfStatement cond cons alts alt line col)
    then show ?thesis using I1
      by (auto intro!: pres_bind D simp: newEnvironment_eq split: prod.splits)
  next
    case (WhileStatement cond body line col)
    then show ?thesis using I1 by (auto intro!: D)
  next
    case (ForStatement var iter body line col)
    then show ?thesis using I1
      by (auto intro!: pres_bind D simp: pres_Throw is_budget_Runtime limit_message_def
               split: LuxValue.splits)
  next
    case (FunctionDeclaration name params rt body line col)
    then show ?thesis using I1 by simp
  next
    case (ReturnStatement val line col)
    then show ?thesis using I1 by (auto intro!: pres_bind D split: option.splits)
  next
    case (BreakStatement line col)
    then show ?thesis using I1 by simp
  next
    case (ContinueStatement line col)
    then show ?thesis using I1 by simp
  next
    case (ImportStatement path line col)
    then show ?thesis using I1 by (auto intro!: pres_bind D)
  next
    case (TryCatchStatement tryBody cv catchBody line col)
    then show ?thesis using I1
      by (auto intro!: pres_res_case D simp: newEnvironment_eq split: prod.splits)
  next
    case (ExpressionStatement e line col)
    then show ?thesis using I1 by (auto intro!: pres_bind D)
  qed
qed

lemma pres_stmt_Suc:
  assumes A: "all_pres n" and I: "INV s0 s"
  shows "pres h s0 (executeStatement (Suc n) h file oi stmt env s)"
  unfolding executeStatement_entry
  by (rule pres_bind[OF pres_step[OF I]]) (rule pres_stmt_switch[OF A])

lemma pres_expr_switch:
  assumes A: "all_pres n" and I1: "INV s0 s1"
  shows "pres h s0 (evaluateExpressionSwitch n h file oi expr env s1)"
  unfolding evaluateExpressionSwitch_eq
proof (goal_cases)
  case 1
  note D = all_presD[OF A]
  show ?case
  proof (cases expr)
    case (BinaryExpression op l r)
    have L: "pres h s0 (evaluateExpression n h file oi l env s1)"
      by (rule D(6)[OF I1])
    consider "op = ''and''" | "op \<noteq> ''and''" "op = ''or''" | "op \<noteq> ''and''" "op \<noteq> ''or''"
      by blast
    then show ?thesis
    proof cases
      case 1
      with BinaryExpression show ?thesis
        by (simp del: isTruthy.simps) (rule pres_bind[OF L], simp add: D del: isTruthy.simps)
    next
      case 2
      with BinaryExpression show ?thesis
        by (simp del: isTruthy.simps) (rule pres_bind[OF L], simp add: D del: isTruthy.simps)
    next
      case 3
      with BinaryExpression show ?thesis
        by (simp del: isTruthy.simps)
           (rule pres_bind[OF L], rule pres_bind[OF D(6)],
            auto simp: pres_Throw dest: evaluateBinaryOp_not_budget split: option.splits sum.splits)
    qed
  next
    case (UnaryExpression op e)
    then show ?thesis using I1
      by (auto intro!: pres_bind D simp: pres_Throw is_budget_Runtime limit_message_def
               split: LuxValue.splits)
  next
    case (CallExpression callee arguments line col)
    show ?thesis
    proof (cases "env_get (frames s1) env callee")
      case None
      with CallExpression I1 show ?thesis
        by (simp add: pres_Throw is_budget_Runtime limit_message_def)
    next
      case (Some f)
      have "pres h s0 (bind (evaluateList n h file oi arguments env s1) (\<lambda>args s1.
                  case f of
                    Builtin name \<Rightarrow>
                      (case builtin_fn h name args (world s1) of
                         (Inl msg, w) \<Rightarrow>
                           Throw (RuntimeError msg file line col (callStack s1)) (s1\<lparr>world := w\<rparr>)
                       | (Inr v, w) \<Rightarrow> Ok v (s1\<lparr>world := w\<rparr>))
                  | LuxFunction i name params body clo \<Rightarrow>
                      (case newEnvironment (Some clo)
                              (s1\<lparr>callStack := callStack s1 @ [StackFrame name file line col]\<rparr>) of
                         (funcEnv, s2) \<Rightarrow>
                           (case executeBlock n h file oi body funcEnv
                                   (s2\<lparr>frames := bind_params funcEnv params args (frames s2)\<rparr>) of
                              Ok result s3 \<Rightarrow>
                                Ok (case result of Some (ReturnSignal v) \<Rightarrow> v | _ \<Rightarrow> Nil)
                                   (s3\<lparr>callStack := butlast (callStack s3)\<rparr>)
                            | Throw e s3 \<Rightarrow> Throw e s3
                            | OutOfFuel \<Rightarrow> OutOfFuel))
                  | _ \<Rightarrow> Throw (RuntimeError (quoted callee @ '' is not a function'')
                           file line col (callStack s1)) s1))"
      proof (rule pres_bind[OF D(7)[OF I1]], goal_cases)
        case (1 args s2)
        note I2 = 1(2)
        show ?case
        proof (cases f)
          case (Builtin name)
          then show ?thesis using I2
            by (auto simp: pres_Throw is_budget_Runtime quiet_host_def
                     split: prod.splits sum.splits dest: arg_cong[where f = fst])
        next
          case (LuxFunction i name params body clo)
          obtain funcEnv s3 where NE: "newEnvironment (Some clo)
                  (s2\<lparr>callStack := callStack s2 @ [StackFrame name file line col]\<rparr>) = (funcEnv, s3)"
            by (cases "newEnvironment (Some clo)
                  (s2\<lparr>callStack := callStack s2 @ [StackFrame name file line col]\<rparr>)")
          let ?s4 = "s3\<lparr>frames := bind_params funcEnv params args (frames s3)\<rparr>"
          have P0: "INV s0 ?s4"
            using I2 NE by (simp add: newEnvironment_eq[OF NE] INV_push)
          have P1: "INV (s2\<lparr>callStack := callStack s2 @ [StackFrame name file line col]\<rparr>) ?s4"
            using NE by (simp add: newEnvironment_eq[OF NE])
          have B0: "pres h s0 (executeBlock n h file oi body funcEnv ?s4)"
            by (rule D(1)[OF P0])
          have B1: "pres h (s2\<lparr>callStack := callStack s2 @ [StackFrame name file line col]\<rparr>)
                      (executeBlock n h file oi body funcEnv ?s4)"
            by (rule D(1)[OF P1])
          show ?thesis
            using LuxFunction NE B0 B1 I2
            by (cases "executeBlock n h file oi body funcEnv ?s4")
               (auto simp: pres_Throw intro: INV_pop)
        qed (use I2 in \<open>auto simp: pres_Throw is_budget_Runtime limit_message_def quoted_def\<close>)
      qed
      with CallExpression Some show ?thesis by simp
    qed
  next
    case (IndexExpression oe ie)
    then show ?thesis using I1
      by (auto intro!: pres_bind D
               simp: pres_Throw is_budget_Runtime index_message_def limit_message_def
               split: LuxValue.splits)
  next
    case (ArrayLiteral elements)
    then show ?thesis using I1
      by (auto intro!: pres_bind D split: prod.splits)
  next
    case (Identifier name)
    then show ?thesis using I1
      by (auto simp: pres_Throw is_budget_Runtime limit_message_def split: option.splits)
  qed (use I1 in simp_all)
qed

lemma pres_expr_Suc:
  assumes A: "all_pres n" and I: "INV s0 s"
  shows "pres h s0 (evaluateExpression (Suc n) h file oi expr env s)"
  unfolding evaluateExpression_entry
  by (rule pres_bind[OF pres_step[OF I]]) (rule pres_expr_switch[OF A])

lemma pres_interpret_Suc:
  assumes A: "all_pres n" and I: "INV s0 s"
  shows "pres h s0 (interpretProgram (Suc n) h file oi prog genv s)"
proof -
  obtain g s1 where IE: "initial_env h genv s = (g, s1)"
    by (cases "initial_env h genv s")
  have E: "INV s s1"
    using IE by (auto simp: initial_env_def newEnvironment_def INV_def split: option.splits)
  let ?s2 = "s1\<lparr>steps := 0, callStack := []\<rparr>"
  have B: "pres h ?s2 (executeBlock n h file oi prog g ?s2)"
    by (rule all_presD(1)[OF A]) simp
  have R: "INV ?s2 t \<Longrightarrow> INV s0 (t\<lparr>steps := steps s, callStack := callStack s\<rparr>)" for t
    using I E by (simp add: INV_def; blast)
  show ?thesis
    unfolding interpretProgram_Suc IE using B
    by (cases "executeBlock n h file oi prog g ?s2") (auto simp: pres_Throw R)
qed

lemma mergeExports_fields [simp]:
  "steps (mergeExports m s) = steps s" "callStack (mergeExports m s) = callStack s"
  "cache (mergeExports m s) = cache s" "loading (mergeExports m s) = loading s"
  "globalEnv (mergeExports m s) = globalEnv s" "world (mergeExports m s) = world s"
  by (simp_all add: mergeExports_def)

lemma INV_cache_add: "INV s0 s \<Longrightarrow> INV s0 (s\<lparr>cache := (cache s)(p \<mapsto> e)\<rparr>)"
  by (simp add: INV_def) blast

lemma interpretProgram_no_Throw: "interpretProgram n h file oi prog genv s \<noteq> Throw e s'"
  by (cases n) (auto simp: interpretProgram_Suc split: prod.splits res.splits)

lemma pres_finally:
  assumes "pres h (s\<lparr>loading := insert p (loading s)\<rparr>) r" and "INV s0 s" and "p \<notin> loading s"
    and "\<And>e s1. r = Throw e s1 \<Longrightarrow> \<not> is_budget e"
  shows "pres h s0 (finally_delete p r)"
proof (cases r)
  case (Ok a s1)
  then show ?thesis using assms
    by (simp add: finally_delete_def INV_def; blast intro: prefix_order.trans)
next
  case (Throw e s1)
  then show ?thesis using assms
    by (simp add: finally_delete_def pres_Throw INV_def; blast intro: prefix_order.trans)
next
  case OutOfFuel
  then show ?thesis by (simp add: finally_delete_def)
qed

lemma pres_import_Suc:
  assumes A: "all_pres n" and I: "INV s0 s"
  shows "pres h s0 (importModule (Suc n) h p from s)"
proof -
  let ?p = "resolve_import h p from"
  show ?thesis
  proof (cases "?p \<in> loading s")
    case True
    then show ?thesis using I by (simp add: importModule_Suc pres_Throw)
  next
    case nl: False
    show ?thesis
    proof (cases "cache s ?p")
      case (Some m)
      then show ?thesis using nl I by (simp add: importModule_Suc)
    next
      case nc: None
      show ?thesis
      proof (cases "files (world s) ?p")
        case None
        then show ?thesis using nl nc I by (simp add: importModule_Suc pres_Throw)
      next
        case (Some source)
        let ?s1 = "s\<lparr>loading := insert ?p (loading s)\<rparr>"
        have "pres h s0 (finally_delete ?p
                    (case parse_source h source ?p of
                       Inl err \<Rightarrow> Throw (syntax_exn err) ?s1
                     | Inr program \<Rightarrow>
                         (case newEnvironment (Some (globalEnv s)) ?s1 of
                            (moduleEnv, s1) \<Rightarrow>
                              bind (interpretProgram n h ?p True program (Some moduleEnv) s1)
                                (\<lambda>result s2.
                                  case res_error result of
                                    Some err \<Rightarrow>
                                      Throw (Error (''Error in module '' @ ?p @ '': '' @ err)) s2
                                  | None \<Rightarrow>
                                      Ok () (mergeExports (res_env result)
                                        (s2\<lparr>cache := (cache s2)(?p \<mapsto> res_env result)\<rparr>))))))"
        proof (rule pres_finally[OF _ I nl], goal_cases)
          case 1
          show ?case
          proof (cases "parse_source h source ?p")
            case (Inl err)
            then show ?thesis by (simp add: pres_Throw)
          next
            case (Inr program)
            obtain moduleEnv s2 where NE: "newEnvironment (Some (globalEnv s)) ?s1 = (moduleEnv, s2)"
              by (cases "newEnvironment (Some (globalEnv s)) ?s1")
            have I2: "INV ?s1 s2" using NE by (simp add: newEnvironment_eq[OF NE])
            have "pres h ?s1 (interpretProgram n h ?p True program (Some moduleEnv) s2)"
              by (rule all_presD(9)[OF A I2])
            then show ?thesis using Inr NE
              by (auto intro!: pres_bind INV_cache_add simp: pres_Throw split: option.splits)
          qed
        next
          case (2 e s1)
          then show ?case
            by (auto simp: bind_def interpretProgram_no_Throw simp del: syntax_exn.simps
                     split: sum.splits prod.splits res.splits option.splits)
        qed
        then show ?thesis using nl nc Some by (simp add: importModule_Suc)
      qed
    qed
  qed
qed

lemma all_pres: "all_pres n"
proof (induction n)
  case 0
  show ?case by (simp add: all_pres_def)
next
  case (Suc n)
  show ?case
    unfolding all_pres_def
    by (intro conjI allI impI pres_block_Suc pres_stmt_Suc pres_alts_Suc pres_while_Suc
          pres_for_Suc pres_expr_Suc pres_list_Suc pres_import_Suc pres_interpret_Suc Suc)
qed


lemma pres_state_of: "pres h s0 r \<Longrightarrow> state_of r = Some t \<Longrightarrow> INV s0 t"
  by (cases r) (auto simp: pres_def state_of_def)

lemma pres_budget:
  "pres h s0 r \<Longrightarrow> r = Throw e t \<Longrightarrow> quiet_host h \<Longrightarrow> is_budget e \<Longrightarrow> STEP_LIMIT < steps t"
  by (simp add: pres_def)

lemma executeBlock_INV:
  "state_of (executeBlock n h file oi stmts env s) = Some t \<Longrightarrow> INV s t"
  by (rule pres_state_of [OF all_presD(1) [OF all_pres INV_refl]])

lemma executeStatement_INV:
  "state_of (executeStatement n h file oi stmt env s) = Some t \<Longrightarrow> INV s t"
  by (rule pres_state_of [OF all_presD(2) [OF all_pres INV_refl]])


lemma executeStatementSwitch_INV:
  "state_of (executeStatementSwitch n h file oi stmt env s) = Some t \<Longrightarrow> INV s t"
  by (rule pres_state_of [OF pres_stmt_switch [OF all_pres INV_refl]])

lemma evaluateExpressionSwitch_INV:
  "state_of (evaluateExpressionSwitch n h file oi e env s) = Some t \<Longrightarrow> INV s t"
  by (rule pres_state_of [OF pres_expr_switch [OF all_pres INV_refl]])

lemma importModule_INV:
  "state_of (importModule n h p from s) = Some t \<Longrightarrow> INV s t"
  by (rule pres_state_of [OF all_presD(8) [OF all_pres INV_refl]])

lemma interpretProgram_INV:
  "state_of (interpretProgram n h file oi prog genv s) = Some t \<Longrightarrow> INV s t"
  by (rule pres_state_of [OF all_presD(9) [OF all_pres INV_refl]])

lemma state_of_simps [simp]:
  "state_of (Ok a s) = Some s" "state_of (Throw e s) = Some s" "state_of OutOfFuel = None"
  by (simp_all add: state_of_def)

lemma state_of_bind_step:
  assumes "state_of (bind (step file s) (\<lambda>u. k)) = Some t"
    and "\<And>s0. steps s0 = Suc (steps s) \<Longrightarrow> state_of (k s0) = Some t \<Longrightarrow> steps s0 \<le> steps t"
  shows "steps s < steps t"
proof (cases "STEP_LIMIT < Suc (steps s)")
  case True
  with assms(1) show ?thesis by (auto simp: step_def bind_def Let_def)
next
  case False
  with assms(1) have "state_of (k (s\<lparr>steps := Suc (steps s)\<rparr>)) = Some t"
    by (simp add: step_def bind_def Let_def)
  from assms(2)[OF _ this] show ?thesis by simp
qed

lemma executeStatement_steps:
  assumes "state_of (executeStatement n h file oi stmt env s) = Some t"
  shows "steps s < steps t"
proof (cases n)
  case 0
  with assms show ?thesis by simp
next
  case (Suc m)
  show ?thesis
  proof (rule state_of_bind_step)
    show "state_of (bind (step file s) (\<lambda>u. executeStatementSwitch m h file oi stmt env)) = Some t"
      using assms by (simp only: Suc executeStatement_entry)
  next
    fix s0
    assume "state_of (executeStatementSwitch m h file oi stmt env s0) = Some t"
    then show "steps s0 \<le> steps t"
      using executeStatementSwitch_INV by (simp add: INV_def)
  qed
qed

lemma evaluateExpression_steps:
  assumes "state_of (evaluateExpression n h file oi e env s) = Some t"
  shows "steps s < steps t"
proof (cases n)
  case 0
  with assms show ?thesis by simp
next
  case (Suc m)
  show ?thesis
  proof (rule state_of_bind_step)
    show "state_of (bind (step file s) (\<lambda>u. evaluateExpressionSwitch m h file oi e env)) = Some t"
      using assms by (simp only: Suc evaluateExpression_entry)
  next
    fix s0
    assume "state_of (evaluateExpressionSwitch m h file oi e env s0) = Some t"
    then show "steps s0 \<le> steps t"
      using evaluateExpressionSwitch_INV by (simp add: INV_def)
  qed
qed

section \<open>C1: constants and assignment\<close>

text \<open>
  C1, as the claim states it, fails: a later \<open>let\<close> of the same name in the same scope
  replaces a constant binding, after which the name can even be assigned. The program
  \<open>const x = 1\<close>, \<open>let x = 2\<close>, \<open>x = 3\<close>, \<open>println(x)\<close> prints \<open>3\<close> and ends without an error.
\<close>

theorem redeclare_counterexample:
  "outcome (interpretProgram 10 demo_host ''<stdin>'' False redeclare_program (Some (0, []))
      demo_state) = Some ([''3''], 9, None)"
  by (simp add: run_simps demo_simps redeclare_program_def outcome_def cong: bind_weak_cong)

lemma chain_set_constant:
  "chain_entry fs c name = Some (v0, True) \<Longrightarrow>
   chain_set fs c name v = Inl (''Cannot reassign constant: '' @ quoted name)"
  by (induction c) (auto split: option.splits)

lemma chain_set_keeps_constants:
  "chain_set fs c name v = Inr fs' \<Longrightarrow> map_of (fs a) name' = Some (v', True) \<Longrightarrow>
   map_of (fs' a) name' = Some (v', True)"
proof (induction c)
  case Nil
  then show ?case by simp
next
  case (Cons b c)
  show ?case
  proof (cases "map_of (fs b) name")
    case None
    with Cons show ?thesis by simp
  next
    case (Some en)
    with Cons.prems have "\<not> snd en" and fs': "fs' = fs(b := AList.update name (v, False) (fs b))"
      by (auto split: if_splits)
    show ?thesis
    proof (cases "a = b \<and> name' = name")
      case True
      with Some Cons.prems(2) \<open>\<not> snd en\<close> show ?thesis by simp
    next
      case False
      with Cons.prems(2) fs' show ?thesis by (auto simp: update_conv')
    qed
  qed
qed

text \<open>
  C1, amended. Assignment never changes a constant binding: when the binding that the name
  resolves to is constant, \<open>set\<close> fails with \<open>Cannot reassign constant\<close>, the assignment
  statement throws that message as a runtime error at its line and column, and the state
  is the one left by evaluating the right-hand side; and a \<open>set\<close> that succeeds leaves every
  constant entry of every frame as it was. \<open>const\<close> and function declarations bind their
  name as a constant in the current frame. A declaration (\<open>define\<close>) of a name always
  replaces the entry of that name in the current frame, value and constness, whatever was
  there.
\<close>

theorem constant_assignment_fails:
  "(chain_entry fs (chain env) name = Some (v0, True) \<longrightarrow>
      env_set fs env name v = Inl (''Cannot reassign constant: '' @ quoted name)) \<and>
   (env_set fs env name v = Inr fs' \<and> map_of (fs a) name' = Some (v', True) \<longrightarrow>
      map_of (fs' a) name' = Some (v', True)) \<and>
   (step file s = Ok () s0 \<and> evaluateExpression n h file oi ex env s0 = Ok v s1 \<and>
    chain_entry (frames s1) (chain env) name = Some (v0, True) \<longrightarrow>
      executeStatement (Suc n) h file oi (Assignment name ex line col) env s =
        Throw (RuntimeError (''Cannot reassign constant: '' @ quoted name) file line col
                 (callStack s1)) s1) \<and>
   (step file s = Ok () s0 \<and> evaluateExpression n h file oi ex env s0 = Ok v s1 \<longrightarrow>
      executeStatement (Suc n) h file oi (ConstDeclaration name ta ex line col) env s =
        Ok None (s1\<lparr>frames := env_define env name v True (frames s1)\<rparr>)) \<and>
   (step file s = Ok () s0 \<longrightarrow>
      executeStatement (Suc n) h file oi (FunctionDeclaration name ps rt body line col) env s =
        Ok None (s0\<lparr>frames := env_define env name (LuxFunction (next_fn s0) name ps body env) True
                               (frames s0),
                    next_fn := Suc (next_fn s0)\<rparr>)) \<and>
   chain_entry (env_define env name v c fs) (chain env) name = Some (v, c)"
proof (intro conjI)
  show "chain_entry fs (chain env) name = Some (v0, True) \<longrightarrow>
      env_set fs env name v = Inl (''Cannot reassign constant: '' @ quoted name)"
    by (simp add: env_set_def chain_set_constant)
  show "env_set fs env name v = Inr fs' \<and> map_of (fs a) name' = Some (v', True) \<longrightarrow>
      map_of (fs' a) name' = Some (v', True)"
    by (auto simp: env_set_def dest: chain_set_keeps_constants)
  show "step file s = Ok () s0 \<and> evaluateExpression n h file oi ex env s0 = Ok v s1 \<and>
    chain_entry (frames s1) (chain env) name = Some (v0, True) \<longrightarrow>
      executeStatement (Suc n) h file oi (Assignment name ex line col) env s =
        Throw (RuntimeError (''Cannot reassign constant: '' @ quoted name) file line col
                 (callStack s1)) s1"
    by (simp add: executeStatement_Suc env_set_def chain_set_constant)
  show "step file s = Ok () s0 \<and> evaluateExpression n h file oi ex env s0 = Ok v s1 \<longrightarrow>
      executeStatement (Suc n) h file oi (ConstDeclaration name ta ex line col) env s =
        Ok None (s1\<lparr>frames := env_define env name v True (frames s1)\<rparr>)"
    by (simp add: executeStatement_Suc)
  show "step file s = Ok () s0 \<longrightarrow>
      executeStatement (Suc n) h file oi (FunctionDeclaration name ps rt body line col) env s =
        Ok None (s0\<lparr>frames := env_define env name (LuxFunction (next_fn s0) name ps body env) True
                               (frames s0),
                    next_fn := Suc (next_fn s0)\<rparr>)"
    by (simp add: executeStatement_Suc)
  show "chain_entry (env_define env name v c fs) (chain env) name = Some (v, c)"
    by (simp add: env_define_def chain_def update_conv')
qed

text \<open>\<open>const x = 1\<close> followed by \<open>x = 2\<close> fails with the error of the assignment.\<close>

theorem constant_assignment_fails_witness:
  "chain_entry (frames (demo_state\<lparr>frames := env_define (0, []) ''x'' (Num 1) True (frames demo_state)\<rparr>))
     (chain (0, [])) ''x'' = Some (Num 1, True) \<and>
   env_set (env_define (0, []) ''x'' (Num 1) True (frames demo_state)) (0, []) ''x'' (Num 2) =
     Inl (''Cannot reassign constant: '' @ quoted ''x'') \<and>
   env_set (env_define (0, []) ''y'' (Num 1) False (env_define (0, []) ''x'' (Num 1) True (frames demo_state)))
     (0, []) ''y'' (Num 2) =
     Inr (env_define (0, []) ''y'' (Num 2) False (env_define (0, []) ''x'' (Num 1) True (frames demo_state))) \<and>
   map_of (env_define (0, []) ''y'' (Num 2) False
             (env_define (0, []) ''x'' (Num 1) True (frames demo_state)) 0) ''x'' = Some (Num 1, True) \<and>
   outcome (interpretProgram 10 demo_host ''<stdin>'' False reassign_program (Some (0, []))
      demo_state) =
     Some ([], 4, Some (''RuntimeError: Cannot reassign constant: '' @ quoted ''x'' @ [CHR 0x0A] @
                        ''  at <stdin>:2:1''))"
proof -
  let ?fs = "env_define (0, []) ''x'' (Num 1) True (frames demo_state)"
  let ?fs1 = "env_define (0, []) ''y'' (Num 1) False ?fs"
  have e: "chain_entry ?fs (chain (0, [])) ''x'' = Some (Num 1, True)"
    by (simp add: run_simps demo_simps)
  have s1: "env_set ?fs (0, []) ''x'' (Num 2) = Inl (''Cannot reassign constant: '' @ quoted ''x'')"
    using e constant_assignment_fails [where fs = ?fs and env = "(0, [])" and name = "''x''"
        and ?v0.0 = "Num 1" and v = "Num 2"]
    by (simp only: simp_thms)
  have s2: "env_set ?fs1 (0, []) ''y'' (Num 2) = Inr (env_define (0, []) ''y'' (Num 2) False ?fs)"
    by (simp add: run_simps demo_simps fun_eq_iff)
  have m: "map_of (?fs1 0) ''x'' = Some (Num 1, True)"
    by (simp add: run_simps demo_simps)
  have k: "map_of (env_define (0, []) ''y'' (Num 2) False ?fs 0) ''x'' = Some (Num 1, True)"
    using s2 m constant_assignment_fails [where fs = ?fs1 and env = "(0, [])" and name = "''y''"
        and v = "Num 2" and fs' = "env_define (0, []) ''y'' (Num 2) False ?fs" and a = 0
        and name' = "''x''" and v' = "Num 1"]
    by (simp only: simp_thms)
  have r: "outcome (interpretProgram 10 demo_host ''<stdin>'' False reassign_program (Some (0, []))
      demo_state) =
     Some ([], 4, Some (''RuntimeError: Cannot reassign constant: '' @ quoted ''x'' @ [CHR 0x0A] @
                        ''  at <stdin>:2:1''))"
    by (simp add: run_simps demo_simps reassign_program_def outcome_def location_def
          cong: bind_weak_cong)
  show ?thesis
    using e s1 s2 k r by simp
qed

section \<open>C2: array indices are rounded down\<close>




section \<open>C3: try/catch catches errors and lets signals pass\<close>



section \<open>C4: short-circuit evaluation of and/or\<close>



section \<open>C5: the step budget\<close>

text \<open>The loop \<open>while true do end\<close>, started at or below the limit with enough fuel to
  reach it, ends with the error of the limit, the counter one above the limit.\<close>

lemma while_true_spins:
  "steps s \<le> STEP_LIMIT \<Longrightarrow> STEP_LIMIT + 3 \<le> m + steps s \<Longrightarrow>
   \<exists>t. whileLoop m h file oi (BooleanLiteral True) [] env s =
          Throw (RuntimeError limit_message file 0 0 (callStack s)) t \<and>
        steps t = Suc STEP_LIMIT \<and> world t = world s"
proof (induction m arbitrary: s)
  case 0
  then show ?case by simp
next
  case (Suc m)
  from Suc.prems obtain k where m: "m = Suc k"
    by (cases m) auto
  have E: "\<And>s'. evaluateExpression m h file oi (BooleanLiteral True) env s' =
      bind (step file s') (\<lambda>u. Ok (Bool True))"
    by (simp add: m evaluateExpression_Suc)
  have B: "\<And>e s'. executeBlock m h file oi [] e s' = Ok None s'"
    by (simp add: m executeBlock_Suc)
  consider (a) "steps s = STEP_LIMIT" | (b) "Suc (steps s) = STEP_LIMIT"
    | (c) "Suc (Suc (steps s)) \<le> STEP_LIMIT"
    using Suc.prems(1) by linarith
  then show ?case
  proof cases
    case a
    then show ?thesis
      by (subst whileLoop_Suc) (simp add: E step_def Let_def)
  next
    case b
    then have "\<not> STEP_LIMIT < Suc (steps s)" "STEP_LIMIT < Suc (Suc (steps s))"
      by simp_all
    then show ?thesis
      by (subst whileLoop_Suc) (simp add: E step_def Let_def)
  next
    case c
    let ?s3 = "snd (newEnvironment (Some env) (s\<lparr>steps := Suc (Suc (steps s))\<rparr>))"
    from c have lt: "\<not> STEP_LIMIT < Suc (steps s)" "\<not> STEP_LIMIT < Suc (Suc (steps s))"
      by simp_all
    have unfold: "whileLoop (Suc m) h file oi (BooleanLiteral True) [] env s =
        whileLoop m h file oi (BooleanLiteral True) [] env ?s3"
      by (subst whileLoop_Suc) (simp add: E B step_def Let_def lt newEnvironment_def)
    have f: "steps ?s3 = Suc (Suc (steps s))" "callStack ?s3 = callStack s" "world ?s3 = world s"
      by (simp_all add: newEnvironment_def)
    have p1: "steps ?s3 \<le> STEP_LIMIT"
      using c by (simp only: f)
    have p2: "STEP_LIMIT + 3 \<le> m + steps ?s3"
      using Suc.prems(2) by (simp only: f)
    from Suc.IH [OF p1 p2] show ?thesis
      by (simp only: unfold f)
  qed
qed

text \<open>The whole program: the error of the limit is caught by the empty catch body, and the
  block ends normally with the counter above the limit.\<close>

lemma swallow_block:
  assumes "steps s = 0" and "Suc STEP_LIMIT \<le> m"
  shows "\<exists>t. executeBlock (Suc (Suc (Suc (Suc m)))) h file oi swallow_program env s = Ok None t \<and>
             steps t = Suc STEP_LIMIT \<and> world t = world s"
proof -
  let ?s1 = "snd (newEnvironment (Some env) (s\<lparr>steps := Suc 0\<rparr>))"
  let ?tryEnv = "fst (newEnvironment (Some env) (s\<lparr>steps := Suc 0\<rparr>))"
  let ?s2 = "?s1\<lparr>steps := Suc (Suc 0)\<rparr>"
  have f: "steps ?s2 = 2" "world ?s2 = world s" "callStack ?s2 = callStack s"
    by (simp_all add: newEnvironment_def)
  have "\<exists>t. whileLoop m h file oi (BooleanLiteral True) [] ?tryEnv ?s2 =
          Throw (RuntimeError limit_message file 0 0 (callStack ?s2)) t \<and>
        steps t = Suc STEP_LIMIT \<and> world t = world ?s2"
    using assms(2) by (intro while_true_spins) (simp_all only: f, simp_all add: STEP_LIMIT_def)
  then obtain t where W: "whileLoop m h file oi (BooleanLiteral True) [] ?tryEnv ?s2 =
          Throw (RuntimeError limit_message file 0 0 (callStack s)) t"
    and t: "steps t = Suc STEP_LIMIT" "world t = world s"
    by (auto simp only: f)
  have lim: "\<not> STEP_LIMIT < Suc 0" "\<not> STEP_LIMIT < Suc (Suc 0)" "0 < STEP_LIMIT"
    by (simp_all add: STEP_LIMIT_def)
  have empty: "\<And>k e s'. executeBlock (Suc k) h file oi [] e s' = Ok None s'"
    by (simp add: executeBlock_Suc)
  have stmt: "executeStatement (Suc m) h file oi (WhileStatement (BooleanLiteral True) [] 2 3)
      ?tryEnv ?s1 = Throw (RuntimeError limit_message file 0 0 (callStack s)) t"
    using W by (simp add: executeStatement_Suc step_def Let_def lim newEnvironment_def)
  have body: "executeBlock (Suc (Suc m)) h file oi [WhileStatement (BooleanLiteral True) [] 2 3]
      ?tryEnv ?s1 = Throw (RuntimeError limit_message file 0 0 (callStack s)) t"
    by (simp add: executeBlock_Suc [of "Suc m"] stmt)
  show ?thesis
    unfolding swallow_program_def
    apply (subst executeBlock_Suc)
    apply (simp only: list.case)
    apply (subst executeStatement_Suc)
    using body t assms(1)
    apply (simp add: step_def Let_def lim empty newEnvironment_def)
    done
qed

text \<open>
  C5, as the claim states it, fails where a try/catch encloses the code that reaches the
  limit: the error of the limit is an error like any other, the catch body receives it, and
  the evaluation goes on. The program \<open>try while true do end catch e end\<close> ends without an
  error, with a step count of 10,000,001.
\<close>

theorem swallowed_limit_counterexample:
  "outcome (interpretProgram 10000010 demo_host ''main.lux'' False swallow_program (Some (0, []))
      demo_state) = Some ([], 10000001, None)"
proof -
  have n: "(10000010 :: nat) = Suc (Suc (Suc (Suc (Suc 10000005))))"
    by simp
  have w: "output_buf (world demo_state) = []"
    by (simp add: run_simps demo_simps)
  have "\<exists>t. executeBlock (Suc (Suc (Suc (Suc 10000005)))) demo_host ''main.lux'' False swallow_program
          (0, []) (demo_state\<lparr>steps := 0, callStack := []\<rparr>) = Ok None t \<and>
        steps t = Suc STEP_LIMIT \<and> world t = world (demo_state\<lparr>steps := 0, callStack := []\<rparr>)"
    by (rule swallow_block) (simp_all add: STEP_LIMIT_def)
  then obtain t where
    "executeBlock (Suc (Suc (Suc (Suc 10000005)))) demo_host ''main.lux'' False swallow_program
          (0, []) (demo_state\<lparr>steps := 0, callStack := []\<rparr>) = Ok None t"
    "steps t = Suc STEP_LIMIT" "output_buf (world t) = []"
    using w by auto
  then show ?thesis
    unfolding n
    by (subst interpretProgram_Suc) (simp add: initial_env_def outcome_def STEP_LIMIT_def)
qed

text \<open>
  C5, amended. \<open>step\<close> adds one to the counter, and throws the runtime error
  \<open>Execution limit exceeded\<close>, with the current file, line 0, column 0 and a copy of the
  current call-frame stack, exactly when the counter it has just incremented is above
  10,000,000; the counter keeps the increment. Every statement entry and every expression
  entry is one call of \<open>step\<close> followed by the switch on the node; every iteration of a
  \<open>while\<close> loop whose condition holds, and every iteration of a \<open>for\<close> loop over an element,
  is one call of \<open>step\<close> before the body, and the exit of a loop calls none. So a literal
  entered below the limit counts exactly one step, every statement and every expression
  ends with a counter above the one it started with, and no evaluation lowers the counter.
  Provided no built-in function of the host throws an error with the message of the limit,
  an evaluation that ends with that error has a counter above 10,000,000: an evaluation
  whose counter stays at or below the limit is not aborted by the budget. The error of the
  limit is an error like any other: a try/catch around the code that reaches the limit
  catches it, and the evaluation then goes on with the counter above the limit, so the top
  level reports it only if no try/catch encloses the point where it is thrown. The top
  level reports the counter as it is at the end of the program.
\<close>

theorem step_budget:
  "step file s =
     (if steps s < STEP_LIMIT then Ok () (s\<lparr>steps := Suc (steps s)\<rparr>)
      else Throw (RuntimeError limit_message file 0 0 (callStack s))
             (s\<lparr>steps := Suc (steps s)\<rparr>)) \<and>
   executeStatement (Suc n) h file oi stmt env s =
     bind (step file s) (\<lambda>u. executeStatementSwitch n h file oi stmt env) \<and>
   evaluateExpression (Suc n) h file oi e env s =
     bind (step file s) (\<lambda>u. evaluateExpressionSwitch n h file oi e env) \<and>
   (evaluateExpression n h file oi cond env s = Ok c s1 \<and> isTruthy c \<longrightarrow>
      whileLoop (Suc n) h file oi cond body env s =
        bind (step file s1) (\<lambda>u s2.
          case newEnvironment (Some env) s2 of
            (blockEnv, s3) \<Rightarrow>
              bind (executeBlock n h file oi body blockEnv s3) (\<lambda>result s4.
                case result of
                  Some (ReturnSignal v) \<Rightarrow> Ok result s4
                | Some BreakSignal \<Rightarrow> Ok None s4
                | _ \<Rightarrow> whileLoop n h file oi cond body env s4))) \<and>
   (evaluateExpression n h file oi cond env s = Ok c s1 \<and> \<not> isTruthy c \<longrightarrow>
      whileLoop (Suc n) h file oi cond body env s = Ok None s1) \<and>
   (i < length (arrays (world s) a) \<longrightarrow>
      forLoop (Suc n) h file oi var a i body env s =
        bind (step file s) (\<lambda>u s1.
          case newEnvironment (Some env) s1 of
            (blockEnv, s2) \<Rightarrow>
              bind (executeBlock n h file oi body blockEnv
                      (s2\<lparr>frames := env_define blockEnv var (read_elem (arrays (world s) a ! i))
                                      False (frames s2)\<rparr>))
                (\<lambda>result s3.
                  case result of
                    Some (ReturnSignal v) \<Rightarrow> Ok result s3
                  | Some BreakSignal \<Rightarrow> Ok None s3
                  | _ \<Rightarrow> forLoop n h file oi var a (Suc i) body env s3))) \<and>
   (\<not> i < length (arrays (world s) a) \<longrightarrow>
      forLoop (Suc n) h file oi var a i body env s = Ok None s) \<and>
   (steps s < STEP_LIMIT \<longrightarrow>
      evaluateExpression (Suc n) h file oi (BooleanLiteral b) env s =
        Ok (Bool b) (s\<lparr>steps := Suc (steps s)\<rparr>)) \<and>
   (state_of (executeStatement n h file oi stmt env s) = Some t \<longrightarrow> steps s < steps t) \<and>
   (state_of (evaluateExpression n h file oi e env s) = Some t \<longrightarrow> steps s < steps t) \<and>
   (state_of (executeBlock n h file oi stmts env s) = Some t \<longrightarrow> steps s \<le> steps t) \<and>
   (quiet_host h \<and> executeBlock n h file oi stmts env s = Throw x t \<and> is_budget x \<longrightarrow>
      STEP_LIMIT < steps t) \<and>
   (step file s = Ok () s0 \<and> newEnvironment (Some env) s0 = (tryEnv, s1) \<and>
    executeBlock n h file oi tryBody tryEnv s1 = Throw x s2 \<and> is_budget x \<longrightarrow>
      result_of (executeStatement (Suc n) h file oi
          (TryCatchStatement tryBody catchVariable [] line col) env s) = Some None \<and>
      map_option steps (state_of (executeStatement (Suc n) h file oi
          (TryCatchStatement tryBody catchVariable [] line col) env s)) = Some (steps s2)) \<and>
   (interpretProgram (Suc n) h file oi stmts (Some env) s = Ok r t \<longrightarrow>
      map_option steps (state_of (executeBlock n h file oi stmts env
          (s\<lparr>steps := 0, callStack := []\<rparr>))) = Some (res_steps r) \<and>
      (res_error r = None) =
        (thrown (executeBlock n h file oi stmts env (s\<lparr>steps := 0, callStack := []\<rparr>)) = None))"
proof -
  have st: "step file s =
     (if steps s < STEP_LIMIT then Ok () (s\<lparr>steps := Suc (steps s)\<rparr>)
      else Throw (RuntimeError limit_message file 0 0 (callStack s))
             (s\<lparr>steps := Suc (steps s)\<rparr>))"
    by (auto simp: step_def Let_def)
  have wh: "evaluateExpression n h file oi cond env s = Ok c s1 \<and> isTruthy c \<longrightarrow>
      whileLoop (Suc n) h file oi cond body env s =
        bind (step file s1) (\<lambda>u s2.
          case newEnvironment (Some env) s2 of
            (blockEnv, s3) \<Rightarrow>
              bind (executeBlock n h file oi body blockEnv s3) (\<lambda>result s4.
                case result of
                  Some (ReturnSignal v) \<Rightarrow> Ok result s4
                | Some BreakSignal \<Rightarrow> Ok None s4
                | _ \<Rightarrow> whileLoop n h file oi cond body env s4))"
    by (simp add: whileLoop_Suc del: isTruthy.simps)
  have wh_exit: "evaluateExpression n h file oi cond env s = Ok c s1 \<and> \<not> isTruthy c \<longrightarrow>
      whileLoop (Suc n) h file oi cond body env s = Ok None s1"
    by (simp add: whileLoop_Suc del: isTruthy.simps)
  have fo: "i < length (arrays (world s) a) \<longrightarrow>
      forLoop (Suc n) h file oi var a i body env s =
        bind (step file s) (\<lambda>u s1.
          case newEnvironment (Some env) s1 of
            (blockEnv, s2) \<Rightarrow>
              bind (executeBlock n h file oi body blockEnv
                      (s2\<lparr>frames := env_define blockEnv var (read_elem (arrays (world s) a ! i))
                                      False (frames s2)\<rparr>))
                (\<lambda>result s3.
                  case result of
                    Some (ReturnSignal v) \<Rightarrow> Ok result s3
                  | Some BreakSignal \<Rightarrow> Ok None s3
                  | _ \<Rightarrow> forLoop n h file oi var a (Suc i) body env s3))"
    by (simp add: forLoop_Suc)
  have fo_exit: "\<not> i < length (arrays (world s) a) \<longrightarrow>
      forLoop (Suc n) h file oi var a i body env s = Ok None s"
    by (simp add: forLoop_Suc)
  have leaf: "steps s < STEP_LIMIT \<longrightarrow>
      evaluateExpression (Suc n) h file oi (BooleanLiteral b) env s =
        Ok (Bool b) (s\<lparr>steps := Suc (steps s)\<rparr>)"
    by (simp add: evaluateExpression_Suc st)
  have up1: "state_of (executeStatement n h file oi stmt env s) = Some t \<longrightarrow> steps s < steps t"
    using executeStatement_steps by blast
  have up2: "state_of (evaluateExpression n h file oi e env s) = Some t \<longrightarrow> steps s < steps t"
    using evaluateExpression_steps by blast
  have up3: "state_of (executeBlock n h file oi stmts env s) = Some t \<longrightarrow> steps s \<le> steps t"
    using executeBlock_INV [of n h "file" oi stmts env s t] by (simp add: INV_def)
  have quiet: "quiet_host h \<and> executeBlock n h file oi stmts env s = Throw x t \<and> is_budget x \<longrightarrow>
      STEP_LIMIT < steps t"
    using pres_budget [OF all_presD(1) [OF all_pres INV_refl]] by blast
  have caught: "step file s = Ok () s0 \<and> newEnvironment (Some env) s0 = (tryEnv, s1) \<and>
    executeBlock n h file oi tryBody tryEnv s1 = Throw x s2 \<and> is_budget x \<longrightarrow>
      result_of (executeStatement (Suc n) h file oi
          (TryCatchStatement tryBody catchVariable [] line col) env s) = Some None \<and>
      map_option steps (state_of (executeStatement (Suc n) h file oi
          (TryCatchStatement tryBody catchVariable [] line col) env s)) = Some (steps s2)"
  proof (cases n)
    case 0
    then show ?thesis by simp
  next
    case (Suc k)
    show ?thesis
      by (auto simp: Suc executeStatement_Suc [of "Suc k"] executeBlock_Suc [of k]
            newEnvironment_def result_of_def)
  qed
  have top: "interpretProgram (Suc n) h file oi stmts (Some env) s = Ok r t \<longrightarrow>
      map_option steps (state_of (executeBlock n h file oi stmts env
          (s\<lparr>steps := 0, callStack := []\<rparr>))) = Some (res_steps r) \<and>
      (res_error r = None) =
        (thrown (executeBlock n h file oi stmts env (s\<lparr>steps := 0, callStack := []\<rparr>)) = None)"
    by (auto simp: interpretProgram_Suc initial_env_def thrown_def split: res.splits)
  show ?thesis
    using st wh wh_exit fo fo_exit leaf up1 up2 up3 quiet caught top
    by (simp only: executeStatement_entry evaluateExpression_entry simp_thms)
qed

text \<open>
  At a counter of 10,000,000 the next \<open>step\<close> throws, whether it is the entry of a
  statement, an iteration of \<open>while true\<close> or an iteration of a \<open>for\<close> loop over a one-element
  array, and the counter is 10,000,001 afterwards; at a counter of 0 a literal counts one
  step. A \<open>break\<close> inside a try with an empty catch body, entered at 9,999,999, reaches the
  limit, and the statement completes with a counter of 10,000,001. \<open>println(1)\<close> at top
  level ends with three steps and no error.
\<close>

theorem step_budget_witness:
  "step ''main.lux'' (demo_state\<lparr>steps := 10000000\<rparr>) =
     Throw (RuntimeError limit_message ''main.lux'' 0 0 []) (demo_state\<lparr>steps := 10000001\<rparr>) \<and>
   step ''main.lux'' demo_state = Ok () (demo_state\<lparr>steps := 1\<rparr>) \<and>
   evaluateExpression (Suc 0) demo_host ''main.lux'' False (BooleanLiteral True) (0, []) demo_state =
     Ok (Bool True) (demo_state\<lparr>steps := 1\<rparr>) \<and>
   evaluateExpression (Suc 0) demo_host ''main.lux'' False (BooleanLiteral True) (0, [])
       (demo_state\<lparr>steps := 9999999\<rparr>) =
     Ok (Bool True) (demo_state\<lparr>steps := 10000000\<rparr>) \<and>
   whileLoop (Suc (Suc 0)) demo_host ''main.lux'' False (BooleanLiteral True) [] (0, [])
       (demo_state\<lparr>steps := 9999999\<rparr>) =
     Throw (RuntimeError limit_message ''main.lux'' 0 0 []) (demo_state\<lparr>steps := 10000001\<rparr>) \<and>
   0 < length (arrays (world (one_element_state\<lparr>steps := 10000000\<rparr>)) 0) \<and>
   forLoop (Suc 0) demo_host ''main.lux'' False ''x'' 0 0 [] (0, [])
       (one_element_state\<lparr>steps := 10000000\<rparr>) =
     Throw (RuntimeError limit_message ''main.lux'' 0 0 [])
       (one_element_state\<lparr>steps := 10000001\<rparr>) \<and>
   state_of (executeStatement 2 demo_host ''main.lux'' False (BreakStatement 1 1) (0, [])
       demo_state) = Some (demo_state\<lparr>steps := 1\<rparr>) \<and>
   steps demo_state < steps (demo_state\<lparr>steps := 1\<rparr>) \<and>
   quiet_host demo_host \<and>
   executeBlock 2 demo_host ''main.lux'' False [BreakStatement 1 1] (0, [])
       (demo_state\<lparr>steps := 10000000\<rparr>) =
     Throw (RuntimeError limit_message ''main.lux'' 0 0 []) (demo_state\<lparr>steps := 10000001\<rparr>) \<and>
   is_budget (RuntimeError limit_message ''main.lux'' 0 0 []) \<and>
   STEP_LIMIT < steps (demo_state\<lparr>steps := 10000001\<rparr>) \<and>
   newEnvironment (Some (0, [])) (demo_state\<lparr>steps := 10000000\<rparr>) =
     ((1, [0]),
      demo_state\<lparr>steps := 10000000, frames := (frames demo_state)(1 := []), next_frame := 2\<rparr>) \<and>
   executeBlock 2 demo_host ''main.lux'' False [BreakStatement 2 3] (1, [0])
       (demo_state\<lparr>steps := 10000000, frames := (frames demo_state)(1 := []), next_frame := 2\<rparr>) =
     Throw (RuntimeError limit_message ''main.lux'' 0 0 [])
       (demo_state\<lparr>steps := 10000001, frames := (frames demo_state)(1 := []), next_frame := 2\<rparr>) \<and>
   result_of (executeStatement (Suc 2) demo_host ''main.lux'' False
       (TryCatchStatement [BreakStatement 2 3] ''e'' [] 1 1) (0, [])
       (demo_state\<lparr>steps := 9999999\<rparr>)) = Some None \<and>
   map_option steps (state_of (executeStatement (Suc 2) demo_host ''main.lux'' False
       (TryCatchStatement [BreakStatement 2 3] ''e'' [] 1 1) (0, [])
       (demo_state\<lparr>steps := 9999999\<rparr>))) = Some 10000001 \<and>
   interpretProgram (Suc 5) demo_host ''main.lux'' False good_program (Some (0, [])) demo_state =
     Ok (Result 3 None (0, [])) (demo_state\<lparr>world := (world demo_state)\<lparr>output_buf := [''1'']\<rparr>\<rparr>) \<and>
   map_option steps (state_of (executeBlock 5 demo_host ''main.lux'' False good_program (0, [])
       (demo_state\<lparr>steps := 0, callStack := []\<rparr>))) = Some 3 \<and>
   thrown (executeBlock 5 demo_host ''main.lux'' False good_program (0, [])
       (demo_state\<lparr>steps := 0, callStack := []\<rparr>)) = None"
proof -
  let ?e = "RuntimeError limit_message ''main.lux'' 0 0 []"
  let ?guarded = "TryCatchStatement [BreakStatement 2 3] ''e'' [] 1 1"
  let ?s1 = "demo_state\<lparr>steps := 10000000, frames := (frames demo_state)(1 := []), next_frame := 2\<rparr>"
  let ?s2 = "demo_state\<lparr>steps := 10000001, frames := (frames demo_state)(1 := []), next_frame := 2\<rparr>"
  let ?t = "demo_state\<lparr>world := (world demo_state)\<lparr>output_buf := [''1'']\<rparr>\<rparr>"
  have L: "STEP_LIMIT = 10000000"
    by (simp add: STEP_LIMIT_def)
  have d: "steps demo_state = 0" "callStack demo_state = []"
    by (simp_all add: run_simps demo_simps)
  have arr: "0 < length (arrays (world (one_element_state\<lparr>steps := 10000000\<rparr>)) 0)"
    by (simp add: one_element_state_def)
  have 
    cs1: "callStack one_element_state = []"
    by (simp add: one_element_state_def d)
  have q: "quiet_host demo_host"
    by (auto simp: quiet_host_def demo_host_def demo_builtin_def limit_message_def
          dest: arg_cong [where f = last])
  have b: "is_budget ?e"
    by (simp add: is_budget_def)
  have blk: "executeBlock 2 demo_host ''main.lux'' False [BreakStatement 1 1] (0, [])
       (demo_state\<lparr>steps := 10000000\<rparr>) = Throw ?e (demo_state\<lparr>steps := 10000001\<rparr>)"
    by (simp add: run_simps d cong: bind_weak_cong)
  have brk: "state_of (executeStatement 2 demo_host ''main.lux'' False (BreakStatement 1 1) (0, [])
       demo_state) = Some (demo_state\<lparr>steps := 1\<rparr>)"
    by (simp add: run_simps d cong: bind_weak_cong)
  have ne: "newEnvironment (Some (0, [])) (demo_state\<lparr>steps := 10000000\<rparr>) = ((1, [0]), ?s1)"
    by (simp add: run_simps demo_simps)
  have body: "executeBlock 2 demo_host ''main.lux'' False [BreakStatement 2 3] (1, [0]) ?s1 =
      Throw ?e ?s2"
    by (simp add: run_simps demo_simps cong: bind_weak_cong)
  have top: "interpretProgram (Suc 5) demo_host ''main.lux'' False good_program (Some (0, []))
      demo_state = Ok (Result 3 None (0, [])) ?t"
    by (simp add: run_simps demo_simps cong: bind_weak_cong)
  have st: "step ''main.lux'' (demo_state\<lparr>steps := 10000000\<rparr>) =
      Throw ?e (demo_state\<lparr>steps := 10000001\<rparr>)"
    using step_budget [where s = "demo_state\<lparr>steps := 10000000\<rparr>" 
        and ?file = "''main.lux''", THEN conjunct1]
    by (simp add: L d)
  have st0: "step ''main.lux'' demo_state = Ok () (demo_state\<lparr>steps := 1\<rparr>)"
    using step_budget [where s = demo_state 
        and ?file = "''main.lux''", THEN conjunct1]
    by (simp add: L d)
  have stb: "step ''main.lux'' (demo_state\<lparr>steps := 9999999\<rparr>) =
      Ok () (demo_state\<lparr>steps := 10000000\<rparr>)"
    using step_budget [where s = "demo_state\<lparr>steps := 9999999\<rparr>" 
        and ?file = "''main.lux''", THEN conjunct1]
    by (simp add: L)
  have sto: "step ''main.lux'' (one_element_state\<lparr>steps := 10000000\<rparr>) =
      Throw ?e (one_element_state\<lparr>steps := 10000001\<rparr>)"
    using step_budget [where s = "one_element_state\<lparr>steps := 10000000\<rparr>" 
        and ?file = "''main.lux''", THEN conjunct1]
    by (simp add: L cs1)
  have lit0: "evaluateExpression (Suc 0) demo_host ''main.lux'' False (BooleanLiteral True) (0, [])
      demo_state = Ok (Bool True) (demo_state\<lparr>steps := 1\<rparr>)"
    using step_budget [where s = demo_state and n = 0 and b = True
        and h = demo_host and ?file = "''main.lux''" and oi = False and env = "(0, [])",
        THEN conjunct2, THEN conjunct2, THEN conjunct2, THEN conjunct2, THEN conjunct2,
        THEN conjunct2, THEN conjunct2, THEN conjunct1]
    by (simp add: L d)
  have lit: "evaluateExpression (Suc 0) demo_host ''main.lux'' False (BooleanLiteral True) (0, [])
      (demo_state\<lparr>steps := 9999999\<rparr>) = Ok (Bool True) (demo_state\<lparr>steps := 10000000\<rparr>)"
    using step_budget [where s = "demo_state\<lparr>steps := 9999999\<rparr>" and n = 0 and b = True
        and h = demo_host and ?file = "''main.lux''" and oi = False and env = "(0, [])",
        THEN conjunct2, THEN conjunct2, THEN conjunct2, THEN conjunct2, THEN conjunct2,
        THEN conjunct2, THEN conjunct2, THEN conjunct1]
    by (simp add: L)
  have wh: "whileLoop (Suc (Suc 0)) demo_host ''main.lux'' False (BooleanLiteral True) [] (0, [])
      (demo_state\<lparr>steps := 9999999\<rparr>) = Throw ?e (demo_state\<lparr>steps := 10000001\<rparr>)"
    using lit st
      step_budget [where s = "demo_state\<lparr>steps := 9999999\<rparr>" and n = "Suc 0"
        and cond = "BooleanLiteral True" and c = "Bool True" and body = "[]"
        and ?s1.0 = "demo_state\<lparr>steps := 10000000\<rparr>"
        and h = demo_host and ?file = "''main.lux''" and oi = False and env = "(0, [])",
        THEN conjunct2, THEN conjunct2, THEN conjunct2, THEN conjunct1]
    by simp
  have fo: "forLoop (Suc 0) demo_host ''main.lux'' False ''x'' 0 0 [] (0, [])
      (one_element_state\<lparr>steps := 10000000\<rparr>) = Throw ?e (one_element_state\<lparr>steps := 10000001\<rparr>)"
    using arr sto
      step_budget [where s = "one_element_state\<lparr>steps := 10000000\<rparr>" and n = 0
        and var = "''x''" and a = 0 and i = 0 and body = "[]"
        and h = demo_host and ?file = "''main.lux''" and oi = False and env = "(0, [])",
        THEN conjunct2, THEN conjunct2, THEN conjunct2, THEN conjunct2, THEN conjunct2, THEN conjunct1]
    by simp
  have up: "steps demo_state < steps (demo_state\<lparr>steps := 1\<rparr>)"
    using brk
      step_budget [where s = demo_state and n = 2 and stmt = "BreakStatement 1 1"
        and t = "demo_state\<lparr>steps := 1\<rparr>"
        and h = demo_host and ?file = "''main.lux''" and oi = False and env = "(0, [])",
        THEN conjunct2, THEN conjunct2, THEN conjunct2, THEN conjunct2, THEN conjunct2,
        THEN conjunct2, THEN conjunct2, THEN conjunct2, THEN conjunct1]
    by (simp only: simp_thms)
  have ab: "STEP_LIMIT < steps (demo_state\<lparr>steps := 10000001\<rparr>)"
    using q blk b
      step_budget [where s = "demo_state\<lparr>steps := 10000000\<rparr>" and n = 2
        and stmts = "[BreakStatement 1 1]" and x = ?e
        and t = "demo_state\<lparr>steps := 10000001\<rparr>"
        and h = demo_host and ?file = "''main.lux''" and oi = False and env = "(0, [])",
        THEN conjunct2, THEN conjunct2, THEN conjunct2, THEN conjunct2, THEN conjunct2,
        THEN conjunct2, THEN conjunct2, THEN conjunct2, THEN conjunct2, THEN conjunct2,
        THEN conjunct2, THEN conjunct1]
    by (simp only: simp_thms)
  have caught: "result_of (executeStatement (Suc 2) demo_host ''main.lux'' False ?guarded (0, [])
        (demo_state\<lparr>steps := 9999999\<rparr>)) = Some None \<and>
      map_option steps (state_of (executeStatement (Suc 2) demo_host ''main.lux'' False ?guarded (0, [])
        (demo_state\<lparr>steps := 9999999\<rparr>))) = Some 10000001"
    using stb ne body b
      step_budget [where s = "demo_state\<lparr>steps := 9999999\<rparr>" and n = 2
        and ?s0.0 = "demo_state\<lparr>steps := 10000000\<rparr>" and tryEnv = "(1, [0])" and ?s1.0 = ?s1
        and tryBody = "[BreakStatement 2 3]" and x = ?e and ?s2.0 = ?s2
        and catchVariable = "''e''" and line = 1 and col = 1
        and h = demo_host and ?file = "''main.lux''" and oi = False and env = "(0, [])",
        THEN conjunct2, THEN conjunct2, THEN conjunct2, THEN conjunct2, THEN conjunct2,
        THEN conjunct2, THEN conjunct2, THEN conjunct2, THEN conjunct2, THEN conjunct2,
        THEN conjunct2, THEN conjunct2, THEN conjunct1]
    by simp
  have rep: "map_option steps (state_of (executeBlock 5 demo_host ''main.lux'' False good_program
        (0, []) (demo_state\<lparr>steps := 0, callStack := []\<rparr>))) = Some 3 \<and>
      thrown (executeBlock 5 demo_host ''main.lux'' False good_program (0, [])
        (demo_state\<lparr>steps := 0, callStack := []\<rparr>)) = None"
    using top
      step_budget [where s = demo_state and n = 5 and stmts = good_program and r = "Result 3 None (0, [])"
        and t = ?t
        and h = demo_host and ?file = "''main.lux''" and oi = False and env = "(0, [])",
        THEN conjunct2, THEN conjunct2, THEN conjunct2, THEN conjunct2, THEN conjunct2,
        THEN conjunct2, THEN conjunct2, THEN conjunct2, THEN conjunct2, THEN conjunct2,
        THEN conjunct2, THEN conjunct2, THEN conjunct2]
    by simp
  show ?thesis
    using st st0 lit0 lit wh arr fo brk up q blk b ab ne body caught top rep
    by (simp only: simp_thms)
qed

section \<open>C6: positions on program-tree nodes\<close>




section \<open>C7: the shape of error strings\<close>




section \<open>C8: imports, the cache and cycles\<close>

text \<open>
  C8, as the claim states it, fails for a module whose evaluation fails: nothing is cached
  for it, so a second import of the same path lexes, parses and evaluates it again. The
  module \<open>bad\<close> prints \<open>2\<close> and then fails; imported twice under try/catch it prints \<open>2\<close>
  twice.
\<close>

theorem failed_import_counterexample:
  "outcome (interpretProgram 20 demo_host ''/main.lux'' True retry_program (Some (0, []))
      demo_state) = Some ([''2'', ''2''], 4, None)"
  by (simp add: run_simps demo_simps retry_program_def outcome_def cong: bind_weak_cong)

text \<open>
  C8, amended. Let \<open>p\<close> be the resolved path of an import. If \<open>p\<close> is in the loading set, the
  import fails with \<open>Circular import detected\<close> and changes nothing. Otherwise, if \<open>p\<close> is in
  the cache, the import only merges the exports of the cached environment: nothing is
  lexed, parsed or evaluated, and the output, the cache and the loading set are unchanged.
  Otherwise the module is lexed, parsed and evaluated, and when that succeeds \<open>p\<close> is in the
  cache afterwards; a lexer or parser error leaves the loader state as it was, and an error
  of the module's evaluation is thrown as \<open>Error in module\<close> without a cache entry being
  added by this import, so that a later import evaluates the module again. On every exit of
  an import, failure included, the loading set is what it was before, and no evaluation
  ever removes a path from the cache: after one successful import of \<open>p\<close>, every later
  import of \<open>p\<close> outside a cycle is a cache hit, for the lifetime of the loader.
\<close>

theorem import_once:
  "(resolve_import h importPath fromFile \<in> loading s \<longrightarrow>
      importModule (Suc n) h importPath fromFile s =
        Throw (Error (''Circular import detected: '' @ resolve_import h importPath fromFile)) s) \<and>
   (resolve_import h importPath fromFile \<notin> loading s \<and>
    cache s (resolve_import h importPath fromFile) = Some moduleEnv \<longrightarrow>
      importModule (Suc n) h importPath fromFile s = Ok () (mergeExports moduleEnv s) \<and>
      world (mergeExports moduleEnv s) = world s \<and>
      cache (mergeExports moduleEnv s) = cache s \<and>
      loading (mergeExports moduleEnv s) = loading s \<and>
      steps (mergeExports moduleEnv s) = steps s) \<and>
   (importModule n h importPath fromFile s = Ok () t \<longrightarrow>
      resolve_import h importPath fromFile \<in> dom (cache t)) \<and>
   (resolve_import h importPath fromFile \<notin> loading s \<and>
    cache s (resolve_import h importPath fromFile) = None \<and>
    files (world s) (resolve_import h importPath fromFile) = Some source \<and>
    parse_source h source (resolve_import h importPath fromFile) = Inl err \<longrightarrow>
      importModule (Suc n) h importPath fromFile s = Throw (syntax_exn err) s) \<and>
   (resolve_import h importPath fromFile \<notin> loading s \<and>
    cache s (resolve_import h importPath fromFile) = None \<and>
    files (world s) (resolve_import h importPath fromFile) = Some source \<and>
    parse_source h source (resolve_import h importPath fromFile) = Inr program \<and>
    newEnvironment (Some (globalEnv s))
      (s\<lparr>loading := insert (resolve_import h importPath fromFile) (loading s)\<rparr>) = (menv, s1) \<and>
    interpretProgram n h (resolve_import h importPath fromFile) True program (Some menv) s1 =
      Ok result s2 \<and>
    res_error result = Some msg \<longrightarrow>
      importModule (Suc n) h importPath fromFile s =
        Throw (Error (''Error in module '' @ resolve_import h importPath fromFile @ '': '' @ msg))
          (s2\<lparr>loading := loading s2 - {resolve_import h importPath fromFile}\<rparr>)) \<and>
   (state_of (importModule n h importPath fromFile s) = Some t \<longrightarrow>
      loading t = loading s \<and> dom (cache s) \<subseteq> dom (cache t)) \<and>
   (state_of (executeBlock n h file oi stmts env s) = Some t \<longrightarrow>
      loading t = loading s \<and> dom (cache s) \<subseteq> dom (cache t))"
proof -
  let ?p = "resolve_import h importPath fromFile"
  have cached: "importModule n h importPath fromFile s = Ok () t \<longrightarrow> ?p \<in> dom (cache t)"
  proof (cases n)
    case 0
    then show ?thesis by simp
  next
    case (Suc k)
    show ?thesis
      unfolding Suc importModule_Suc
      by (auto simp: finally_delete_def bind_def
               split: if_splits option.splits sum.splits prod.splits res.splits)
  qed
  have unchanged: "?p \<notin> loading s \<Longrightarrow> s\<lparr>loading := insert ?p (loading s) - {?p}\<rparr> = s"
    by simp
  have syn: "?p \<notin> loading s \<and> cache s ?p = None \<and> files (world s) ?p = Some source \<and>
      parse_source h source ?p = Inl err \<longrightarrow>
      importModule (Suc n) h importPath fromFile s = Throw (syntax_exn err) s"
    by (simp add: importModule_Suc finally_delete_def del: syntax_exn.simps)
  have inv1: "state_of (importModule n h importPath fromFile s) = Some t \<longrightarrow>
      loading t = loading s \<and> dom (cache s) \<subseteq> dom (cache t)"
    using importModule_INV [of n h importPath fromFile s t] by (simp add: INV_def)
  have inv2: "state_of (executeBlock n h file oi stmts env s) = Some t \<longrightarrow>
      loading t = loading s \<and> dom (cache s) \<subseteq> dom (cache t)"
    using executeBlock_INV [of n h "file" oi stmts env s t] by (simp add: INV_def)
  show ?thesis
    using cached syn inv1 inv2
    by (simp add: importModule_Suc finally_delete_def del: syntax_exn.simps)
qed

text \<open>Importing \<open>good\<close> evaluates the module once (it prints \<open>1\<close>) and caches it; a second
  import is a cache hit that prints nothing; an import of a path that is being loaded
  fails.\<close>

theorem import_once_witness:
  "resolve_import demo_host ''good'' ''/main.lux'' = ''/good.lux'' \<and>
   importModule 10 demo_host ''good'' ''/main.lux'' demo_state = Ok () imported_state \<and>
   ''/good.lux'' \<in> dom (cache imported_state) \<and>
   loading imported_state = loading demo_state \<and>
   ''/good.lux'' \<notin> loading imported_state \<and>
   cache imported_state ''/good.lux'' = Some (1, [0]) \<and>
   importModule (Suc 0) demo_host ''good'' ''/main.lux'' imported_state =
     Ok () (mergeExports (1, [0]) imported_state) \<and>
   output_buf (world (mergeExports (1, [0]) imported_state)) = [''1''] \<and>
   ''/good.lux'' \<in> loading (demo_state\<lparr>loading := {''/good.lux''}\<rparr>) \<and>
   importModule (Suc 0) demo_host ''good'' ''/main.lux'' (demo_state\<lparr>loading := {''/good.lux''}\<rparr>) =
     Throw (Error ''Circular import detected: /good.lux'') (demo_state\<lparr>loading := {''/good.lux''}\<rparr>)"
proof -
  have p: "resolve_import demo_host ''good'' ''/main.lux'' = ''/good.lux''"
    by (simp add: run_simps demo_simps)
  have first: "importModule 10 demo_host ''good'' ''/main.lux'' demo_state = Ok () imported_state"
    by (simp add: run_simps demo_simps imported_state_def cong: bind_weak_cong)
  have l: "''/good.lux'' \<notin> loading imported_state"
    and c: "cache imported_state ''/good.lux'' = Some (1, [0])"
    and o: "output_buf (world imported_state) = [''1'']"
    by (simp_all add: imported_state_def run_simps demo_simps)
  have cyc: "''/good.lux'' \<in> loading (demo_state\<lparr>loading := {''/good.lux''}\<rparr>)"
    by simp
  note I1 = import_once [where h = demo_host and importPath = "''good''"
      and fromFile = "''/main.lux''" and s = demo_state and t = imported_state and n = 10,
      unfolded p]
  note I2 = import_once [where h = demo_host and importPath = "''good''"
      and fromFile = "''/main.lux''" and s = imported_state and moduleEnv = "(1, [0])" and n = 0,
      unfolded p]
  note I3 = import_once [where h = demo_host and importPath = "''good''"
      and fromFile = "''/main.lux''" and s = "demo_state\<lparr>loading := {''/good.lux''}\<rparr>" and n = 0,
      unfolded p]
  have a: "''/good.lux'' \<in> dom (cache imported_state)"
    using first I1 by (simp only: simp_thms)
  have b: "loading imported_state = loading demo_state"
    using first I1 by (simp only: state_of_simps simp_thms)
  have d: "importModule (Suc 0) demo_host ''good'' ''/main.lux'' imported_state =
      Ok () (mergeExports (1, [0]) imported_state) \<and>
      world (mergeExports (1, [0]) imported_state) = world imported_state"
    using l c I2 by (simp only: simp_thms)
  have e: "importModule (Suc 0) demo_host ''good'' ''/main.lux'' (demo_state\<lparr>loading := {''/good.lux''}\<rparr>) =
      Throw (Error ''Circular import detected: /good.lux'') (demo_state\<lparr>loading := {''/good.lux''}\<rparr>)"
    using cyc I3 by simp
  show ?thesis
    using p first a b l c d o cyc e by simp
qed

section \<open>C9: the export rule\<close>







section \<open>C10: call frames left on the stack by errors\<close>




end
